theory Spec2Isabelle
  imports Complex_Main
begin

section \<open>The credit ledger and the GrooveSell webhook\<close>

text \<open>
  The development embeds \<^verbatim>\<open>src/app/api/groovesell/webhook/route.ts\<close>: the webhook
  endpoint \<^verbatim>\<open>POST\<close>, its four event handlers, and the SQL schema and functions that
  follow them in the same file (\<^verbatim>\<open>use_credits\<close>, \<^verbatim>\<open>add_credits\<close>,
  \<^verbatim>\<open>get_available_credits\<close>, the \<^verbatim>\<open>UNIQUE\<close> constraint of
  \<^verbatim>\<open>transactions.groovesell_order_id\<close>).

  Modelling decisions:
  \<^item> A table is the list of its rows. The columns \<^verbatim>\<open>created_at\<close>, \<^verbatim>\<open>updated_at\<close> and the
    generated \<^verbatim>\<open>transactions.id\<close> are left out: no handler reads them.
  \<^item> An \<^verbatim>\<open>INTEGER\<close> column or parameter is an \<^typ>\<open>int\<close> that lies in the 32-bit range
    (\<open>int4\<close> below) and holds a value (no \<^verbatim>\<open>NULL\<close>). The SQL functions raise
    \<^verbatim>\<open>integer out of range\<close> (SQLSTATE 22003) when an argument or a result of their
    arithmetic leaves that range, and change nothing then. A value that an update or
    insert of the client writes and the table rejects is one of the failures of that
    call (see the last item but one).
  \<^item> \<^verbatim>\<open>amount\<close> is a JavaScript number, here a \<^typ>\<open>real\<close>; the rounding of
    \<^verbatim>\<open>DECIMAL(10,2)\<close> is not modelled.
  \<^item> The client module \<^verbatim>\<open>@/lib/supabase/server\<close> is not part of the sources. The client
    is taken to reach every row (the row-level security policies are not modelled), and
    each of its calls either runs, or comes back with an error object, or throws; which of
    the three happens at each call site is a parameter of the handlers.
  \<^item> A text is a list of 8-bit characters: what a request header can carry. A character
    from 128 on takes two bytes in UTF-8, the others one.
  \<^item> Writes to the console are not part of the state.
\<close>

subsection \<open>Tables\<close>

type_synonym uuid = string

datatype subscription_status = Inactive | Active | Cancelled | Past_due

datatype subscription_type = Monthly | Yearly

datatype transaction_type = Purchase | Refund | Bonus

datatype transaction_status = Pending | Completed | Failed | Refunded

text \<open>\<^verbatim>\<open>public.user_profiles\<close>; \<open>profile_id\<close> is the column \<^verbatim>\<open>id\<close>.\<close>

record user_profile =
  profile_id :: uuid
  email :: string
  subscription_status :: subscription_status
  subscription_type :: "subscription_type option"
  total_credits :: int
  used_credits :: int
  groovesell_customer_id :: "string option"

text \<open>\<^verbatim>\<open>public.transactions\<close>.\<close>

record transaction_row =
  user_id :: uuid
  groovesell_order_id :: string
  transaction_type :: transaction_type
  credits_added :: int
  amount :: real
  currency :: string
  tx_subscription_type :: "subscription_type option"
  status :: transaction_status

record store =
  user_profiles :: "user_profile list"
  transactions :: "transaction_row list"

text \<open>The row that the trigger \<^verbatim>\<open>handle_new_user\<close> inserts: three free credits.\<close>

definition handle_new_user :: "uuid \<Rightarrow> string \<Rightarrow> user_profile" where
  "handle_new_user new_id new_email =
     \<lparr>profile_id = new_id, email = new_email, subscription_status = Inactive,
      subscription_type = None, total_credits = 3, used_credits = 0,
      groovesell_customer_id = None\<rparr>"

subsection \<open>Store operations\<close>

datatype pg_error =
  No_rows | Multiple_rows | Unique_violation | Integer_out_of_range | Store_unavailable

text \<open>The range of the type \<^verbatim>\<open>INTEGER\<close>.\<close>

definition int4 :: "int \<Rightarrow> bool" where
  "int4 x = (- 2147483648 \<le> x \<and> x \<le> 2147483647)"

text \<open>\<^verbatim>\<open>.select(...).eq(...).single()\<close>: an error unless exactly one row matches.\<close>

definition single :: "('r \<Rightarrow> bool) \<Rightarrow> 'r list \<Rightarrow> pg_error + 'r" where
  "single P rows =
     (case filter P rows of
        [] \<Rightarrow> Inl No_rows
      | [r] \<Rightarrow> Inr r
      | _ \<Rightarrow> Inl Multiple_rows)"

text \<open>\<^verbatim>\<open>UPDATE public.user_profiles SET ... WHERE ...\<close>.\<close>

definition update_profiles ::
  "(user_profile \<Rightarrow> bool) \<Rightarrow> (user_profile \<Rightarrow> user_profile) \<Rightarrow> store \<Rightarrow> store" where
  "update_profiles P g s =
     s\<lparr>user_profiles := map (\<lambda>p. if P p then g p else p) (user_profiles s)\<rparr>"

text \<open>
  \<^verbatim>\<open>SELECT ... INTO\<close> of the SQL functions: the first matching row, \<open>None\<close> (the
  variable stays \<^verbatim>\<open>NULL\<close>) when there is none.
\<close>

definition select_profile :: "uuid \<Rightarrow> store \<Rightarrow> user_profile option" where
  "select_profile user_uuid s = find (\<lambda>p. profile_id p = user_uuid) (user_profiles s)"

text \<open>
  \<^verbatim>\<open>get_available_credits\<close>: the difference is computed in \<^verbatim>\<open>INTEGER\<close>, so the
  function raises when it does not fit.
\<close>

definition get_available_credits :: "uuid \<Rightarrow> store \<Rightarrow> pg_error + int option" where
  "get_available_credits user_uuid s =
     (case select_profile user_uuid s of
        None \<Rightarrow> Inr None
      | Some p \<Rightarrow>
          if int4 (total_credits p - used_credits p)
          then Inr (Some (total_credits p - used_credits p))
          else Inl Integer_out_of_range)"

text \<open>
  \<^verbatim>\<open>use_credits\<close>. The comparison with a \<^verbatim>\<open>NULL\<close> balance is not true, so a missing
  account takes the \<^verbatim>\<open>ELSE\<close> branch. The function raises, and changes nothing, when
  the argument is no \<^verbatim>\<open>INTEGER\<close>, when \<^verbatim>\<open>total_credits - used_credits\<close> does not
  fit, or when \<^verbatim>\<open>used_credits + credits_to_use\<close> does not fit in a row of the update.
\<close>

definition use_credits :: "uuid \<Rightarrow> int \<Rightarrow> store \<Rightarrow> pg_error + bool \<times> store" where
  "use_credits user_uuid credits_to_use s =
     (if \<not> int4 credits_to_use then Inl Integer_out_of_range
      else
        (case select_profile user_uuid s of
           None \<Rightarrow> Inr (False, s)
         | Some p \<Rightarrow>
             if \<not> int4 (total_credits p - used_credits p) then Inl Integer_out_of_range
             else
               let available_credits = total_credits p - used_credits p
               in if available_credits \<ge> credits_to_use
                  then
                    if list_ex (\<lambda>q. profile_id q = user_uuid
                                    \<and> \<not> int4 (used_credits q + credits_to_use))
                         (user_profiles s)
                    then Inl Integer_out_of_range
                    else Inr (True,
                              update_profiles (\<lambda>q. profile_id q = user_uuid)
                                (\<lambda>q. q\<lparr>used_credits := used_credits q + credits_to_use\<rparr>) s)
                  else Inr (False, s)))"

text \<open>
  \<^verbatim>\<open>add_credits\<close> returns \<^verbatim>\<open>FOUND\<close>: whether the update touched a row. It raises, and
  changes nothing, when the argument is no \<^verbatim>\<open>INTEGER\<close> or when
  \<^verbatim>\<open>total_credits + credits_to_add\<close> does not fit in a row of the update.
\<close>

definition add_credits :: "uuid \<Rightarrow> int \<Rightarrow> store \<Rightarrow> pg_error + bool \<times> store" where
  "add_credits user_uuid credits_to_add s =
     (if \<not> int4 credits_to_add
         \<or> list_ex (\<lambda>q. profile_id q = user_uuid
                         \<and> \<not> int4 (total_credits q + credits_to_add))
              (user_profiles s)
      then Inl Integer_out_of_range
      else Inr (list_ex (\<lambda>q. profile_id q = user_uuid) (user_profiles s),
                update_profiles (\<lambda>q. profile_id q = user_uuid)
                  (\<lambda>q. q\<lparr>total_credits := total_credits q + credits_to_add\<rparr>) s))"

text \<open>
  \<^verbatim>\<open>.from('transactions').insert(row)\<close> under
  \<^verbatim>\<open>groovesell_order_id TEXT NOT NULL UNIQUE\<close>.
\<close>

definition insert_transaction :: "transaction_row \<Rightarrow> store \<Rightarrow> pg_error + store" where
  "insert_transaction row s =
     (if list_ex (\<lambda>t. groovesell_order_id t = groovesell_order_id row) (transactions s)
      then Inl Unique_violation
      else Inr (s\<lparr>transactions := transactions s @ [row]\<rparr>))"

subsection \<open>Outcomes of a client call\<close>

datatype call_site =
  Select_user | Rpc_add_credits | Update_profile | Insert_transaction
  | Select_transaction | Select_profile

datatype outcome = Runs | Returns_error | Throws

text \<open>
  \<open>attempt\<close> gives what the handler sees of a call: \<open>None\<close> when the call throws,
  the error object when the store fails, the call's own result otherwise.
\<close>

definition attempt :: "outcome \<Rightarrow> (pg_error + 'a) \<Rightarrow> (pg_error + 'a) option" where
  "attempt oc r =
     (case oc of
        Throws \<Rightarrow> None
      | Returns_error \<Rightarrow> Some (Inl Store_unavailable)
      | Runs \<Rightarrow> Some r)"

definition no_faults :: "call_site \<Rightarrow> outcome" where
  "no_faults c = Runs"

subsection \<open>The webhook\<close>

datatype webhook_status = Wh_completed | Wh_refunded | Wh_cancelled

text \<open>\<^verbatim>\<open>interface GrooveSellWebhook\<close>.\<close>

record GrooveSellWebhook =
  event_type :: string
  order_id :: string
  customer_email :: string
  product_id :: string
  product_name :: string
  wh_amount :: real
  wh_currency :: string
  wh_status :: webhook_status
  wh_subscription_type :: "subscription_type option"
  created_at :: string

text \<open>
  The process environment and the two library functions the endpoint calls.
  \<open>NEXT_PUBLIC_CREDITS_PER_MONTH\<close> is the integer that the variable's text parses to,
  \<open>None\<close> when the variable is unset or empty. \<open>createHmac_sha256_hex secret payload\<close>
  is the hexadecimal HMAC-SHA256 digest; \<open>JSON_parse\<close> is \<open>None\<close> where
  \<^verbatim>\<open>JSON.parse\<close> throws.
\<close>

record env =
  GROOVESELL_WEBHOOK_SECRET :: "string option"
  NEXT_PUBLIC_CREDITS_PER_MONTH :: "int option"
  createHmac_sha256_hex :: "string \<Rightarrow> string \<Rightarrow> string"
  JSON_parse :: "string \<Rightarrow> GrooveSellWebhook option"

datatype exn = RangeError

text \<open>
  The length of \<^verbatim>\<open>Buffer.from(text)\<close>, the UTF-8 encoding: two bytes for a character
  with the top bit set, one for the others.
\<close>

definition utf8_length :: "string \<Rightarrow> nat" where
  "utf8_length a = sum_list (map (\<lambda>c. if digit7 c then 2 else 1) a)"

text \<open>
  \<^verbatim>\<open>crypto.timingSafeEqual\<close> on the two buffers: it throws when they differ in byte
  length, and two texts have the same encoding only when they are equal.
\<close>

definition timingSafeEqual :: "string \<Rightarrow> string \<Rightarrow> exn + bool" where
  "timingSafeEqual a b =
     (if utf8_length a \<noteq> utf8_length b then Inl RangeError else Inr (a = b))"

definition verifyWebhookSignature :: "env \<Rightarrow> string \<Rightarrow> string \<Rightarrow> string \<Rightarrow> exn + bool" where
  "verifyWebhookSignature e payload signature secret =
     (let expectedSignature = createHmac_sha256_hex e secret payload
      in timingSafeEqual (''sha256='' @ expectedSignature) signature)"

definition getCreditsForPurchase :: "env \<Rightarrow> int" where
  "getCreditsForPurchase e =
     (case NEXT_PUBLIC_CREDITS_PER_MONTH e of None \<Rightarrow> 5 | Some n \<Rightarrow> n)"

text \<open>\<^verbatim>\<open>data.subscription_type || 'monthly'\<close>.\<close>

definition subscription_type_or_monthly :: "GrooveSellWebhook \<Rightarrow> subscription_type" where
  "subscription_type_or_monthly d =
     (case wh_subscription_type d of None \<Rightarrow> Monthly | Some t \<Rightarrow> t)"

definition purchase_row :: "uuid \<Rightarrow> int \<Rightarrow> GrooveSellWebhook \<Rightarrow> transaction_row" where
  "purchase_row userId creditsToAdd d =
     \<lparr>user_id = userId, groovesell_order_id = order_id d, transaction_type = Purchase,
      credits_added = creditsToAdd, amount = wh_amount d, currency = wh_currency d,
      tx_subscription_type = Some (subscription_type_or_monthly d), status = Completed\<rparr>"

definition refund_row :: "transaction_row \<Rightarrow> GrooveSellWebhook \<Rightarrow> transaction_row" where
  "refund_row t d =
     \<lparr>user_id = user_id t, groovesell_order_id = order_id d @ ''-refund'',
      transaction_type = Refund, credits_added = - credits_added t,
      amount = - wh_amount d, currency = wh_currency d,
      tx_subscription_type = None, status = Completed\<rparr>"

text \<open>
  The handlers. Each returns the store it leaves; a thrown error is caught by the
  handler's own \<^verbatim>\<open>try\<close>/\<^verbatim>\<open>catch\<close>, which only logs.
\<close>

definition handlePurchaseCompleted ::
  "env \<Rightarrow> (call_site \<Rightarrow> outcome) \<Rightarrow> store \<Rightarrow> GrooveSellWebhook \<Rightarrow> store" where
  "handlePurchaseCompleted e f s d =
     (case attempt (f Select_user)
             (single (\<lambda>p. email p = customer_email d) (user_profiles s)) of
        None \<Rightarrow> s
      | Some (Inl userError) \<Rightarrow> s
      | Some (Inr users) \<Rightarrow>
          let userId = profile_id users;
              creditsToAdd = getCreditsForPurchase e
          in (case attempt (f Rpc_add_credits) (add_credits userId creditsToAdd s) of
                None \<Rightarrow> s
              | Some (Inl addCreditsError) \<Rightarrow> s
              | Some (Inr (found, s1)) \<Rightarrow>
                  (case attempt (f Update_profile)
                          (Inr (update_profiles (\<lambda>p. profile_id p = userId)
                                  (\<lambda>p. p\<lparr>subscription_status := Active,
                                          subscription_type := Some (subscription_type_or_monthly d),
                                          groovesell_customer_id := Some (order_id d)\<rparr>) s1)) of
                     None \<Rightarrow> s1
                   | Some (Inl updateError) \<Rightarrow> s1
                   | Some (Inr s2) \<Rightarrow>
                       (case attempt (f Insert_transaction)
                               (insert_transaction (purchase_row userId creditsToAdd d) s2) of
                          None \<Rightarrow> s2
                        | Some (Inl transactionError) \<Rightarrow> s2
                        | Some (Inr s3) \<Rightarrow> s3))))"

text \<open>
  \<^verbatim>\<open>handleSubscriptionRenewed\<close> checks the lookup only: the results of the
  \<^verbatim>\<open>add_credits\<close> call and of the insert are dropped, so only a throw stops it.
\<close>

definition handleSubscriptionRenewed ::
  "env \<Rightarrow> (call_site \<Rightarrow> outcome) \<Rightarrow> store \<Rightarrow> GrooveSellWebhook \<Rightarrow> store" where
  "handleSubscriptionRenewed e f s d =
     (case attempt (f Select_user)
             (single (\<lambda>p. email p = customer_email d) (user_profiles s)) of
        None \<Rightarrow> s
      | Some (Inl userError) \<Rightarrow> s
      | Some (Inr users) \<Rightarrow>
          let userId = profile_id users;
              creditsToAdd = getCreditsForPurchase e
          in (case attempt (f Rpc_add_credits) (add_credits userId creditsToAdd s) of
                None \<Rightarrow> s
              | Some r1 \<Rightarrow>
                  let s1 = (case r1 of Inl err \<Rightarrow> s | Inr (found, s') \<Rightarrow> s')
                  in (case attempt (f Insert_transaction)
                             (insert_transaction (purchase_row userId creditsToAdd d) s1) of
                        None \<Rightarrow> s1
                      | Some (Inl err) \<Rightarrow> s1
                      | Some (Inr s2) \<Rightarrow> s2)))"

definition handleSubscriptionCancelled ::
  "(call_site \<Rightarrow> outcome) \<Rightarrow> store \<Rightarrow> GrooveSellWebhook \<Rightarrow> store" where
  "handleSubscriptionCancelled f s d =
     (case attempt (f Update_profile)
             (Inr (update_profiles (\<lambda>p. email p = customer_email d)
                     (\<lambda>p. p\<lparr>subscription_status := Cancelled\<rparr>) s)) of
        None \<Rightarrow> s
      | Some (Inl err) \<Rightarrow> s
      | Some (Inr s1) \<Rightarrow> s1)"

text \<open>
  \<^verbatim>\<open>handleRefund\<close>: the profile lookup keeps only \<^verbatim>\<open>data\<close>, so an error there is a
  missing profile; the results of the update and of the insert are dropped.
\<close>

definition handleRefund ::
  "(call_site \<Rightarrow> outcome) \<Rightarrow> store \<Rightarrow> GrooveSellWebhook \<Rightarrow> store" where
  "handleRefund f s d =
     (case attempt (f Select_transaction)
             (single (\<lambda>t. groovesell_order_id t = order_id d) (transactions s)) of
        None \<Rightarrow> s
      | Some (Inl transactionError) \<Rightarrow> s
      | Some (Inr transaction) \<Rightarrow>
          (case attempt (f Select_profile)
                  (single (\<lambda>p. profile_id p = user_id transaction) (user_profiles s)) of
             None \<Rightarrow> s
           | Some r \<Rightarrow>
               (case (case r of
                        Inl err \<Rightarrow> Some s
                      | Inr userProfile \<Rightarrow>
                          let creditsToRemove =
                                min (credits_added transaction) (total_credits userProfile)
                          in (case attempt (f Update_profile)
                                      (Inr (update_profiles
                                              (\<lambda>p. profile_id p = user_id transaction)
                                              (\<lambda>p. p\<lparr>total_credits :=
                                                        max 0 (total_credits userProfile
                                                               - creditsToRemove),
                                                      subscription_status := Cancelled\<rparr>) s)) of
                                None \<Rightarrow> None
                              | Some (Inl err) \<Rightarrow> Some s
                              | Some (Inr s') \<Rightarrow> Some s')) of
                  None \<Rightarrow> s
                | Some s1 \<Rightarrow>
                    (case attempt (f Insert_transaction)
                            (insert_transaction (refund_row transaction d) s1) of
                       None \<Rightarrow> s1
                     | Some (Inl err) \<Rightarrow> s1
                     | Some (Inr s2) \<Rightarrow> s2))))"

text \<open>\<^verbatim>\<open>NextResponse.json(body, { status })\<close>; the status is 200 when none is given.\<close>

datatype json_body = Success_true | Error string

type_synonym response = "json_body \<times> nat"

text \<open>\<^verbatim>\<open>!v\<close> for a text that may be missing: true when it is absent or empty.\<close>

definition falsy :: "string option \<Rightarrow> bool" where
  "falsy v = (case v of None \<Rightarrow> True | Some x \<Rightarrow> x = [])"

text \<open>The \<^verbatim>\<open>switch\<close> on \<^verbatim>\<open>webhookData.event_type\<close>.\<close>

definition dispatch ::
  "env \<Rightarrow> (call_site \<Rightarrow> outcome) \<Rightarrow> store \<Rightarrow> GrooveSellWebhook \<Rightarrow> store" where
  "dispatch e f s webhookData =
     (if event_type webhookData = ''purchase.completed''
         \<or> event_type webhookData = ''subscription.created''
      then handlePurchaseCompleted e f s webhookData
      else if event_type webhookData = ''subscription.renewed''
      then handleSubscriptionRenewed e f s webhookData
      else if event_type webhookData = ''subscription.cancelled''
      then handleSubscriptionCancelled f s webhookData
      else if event_type webhookData = ''refund.processed''
      then handleRefund f s webhookData
      else s)"

text \<open>
  \<^verbatim>\<open>POST\<close>: \<open>body\<close> is the request text, \<open>signature\<close> the header
  \<^verbatim>\<open>x-groovesell-signature\<close>. The client that \<^verbatim>\<open>createClient\<close> returns is the pair
  of \<open>f\<close> and the store. Whatever the \<^verbatim>\<open>try\<close> block throws is answered with 500.
  The last branch is never taken: a value that is not falsy is \<open>Some\<close> text.
\<close>

definition POST ::
  "env \<Rightarrow> (call_site \<Rightarrow> outcome) \<Rightarrow> store \<Rightarrow> string \<Rightarrow> string option \<Rightarrow> response \<times> store" where
  "POST e f s body signature =
     (if falsy (GROOVESELL_WEBHOOK_SECRET e)
      then ((Error ''Webhook secret not configured'', 500), s)
      else if falsy signature
      then ((Error ''Missing signature'', 400), s)
      else
        (case (GROOVESELL_WEBHOOK_SECRET e, signature) of
           (Some webhookSecret, Some sg) \<Rightarrow>
             (case verifyWebhookSignature e body sg webhookSecret of
                Inl thrown \<Rightarrow> ((Error ''Internal server error'', 500), s)
              | Inr False \<Rightarrow> ((Error ''Invalid signature'', 401), s)
              | Inr True \<Rightarrow>
                  (case JSON_parse e body of
                     None \<Rightarrow> ((Error ''Internal server error'', 500), s)
                   | Some webhookData \<Rightarrow>
                       ((Success_true, 200), dispatch e f s webhookData)))
         | _ \<Rightarrow> ((Error ''Internal server error'', 500), s)))"

subsection \<open>Vocabulary of the properties\<close>

text \<open>\<^verbatim>\<open>id UUID ... PRIMARY KEY\<close>: no two profile rows share an id.\<close>

definition primary_key :: "store \<Rightarrow> bool" where
  "primary_key s = distinct (map profile_id (user_profiles s))"

text \<open>
  The header carries \<^verbatim>\<open>sha256=\<close> followed by the digest of the body under the
  configured secret.
\<close>

definition signature_matches :: "env \<Rightarrow> string \<Rightarrow> string option \<Rightarrow> bool" where
  "signature_matches e body signature =
     (case GROOVESELL_WEBHOOK_SECRET e of
        None \<Rightarrow> False
      | Some secret \<Rightarrow> signature = Some (''sha256='' @ createHmac_sha256_hex e secret body))"

text \<open>An authentic event \<open>d\<close>: the secret is configured, the signature matches, the body parses to \<open>d\<close>.\<close>

definition authentic :: "env \<Rightarrow> string \<Rightarrow> string option \<Rightarrow> GrooveSellWebhook \<Rightarrow> bool" where
  "authentic e body signature d =
     (\<not> falsy (GROOVESELL_WEBHOOK_SECRET e) \<and> signature_matches e body signature
      \<and> JSON_parse e body = Some d)"

text \<open>
  The core operations on the ledger, for statements about sequences of them: the two
  SQL functions and the processing of a refund event. A call that raises leaves the
  store as it was.
\<close>

datatype core_op =
  Use_credits uuid int | Add_credits uuid int | Refund_processed GrooveSellWebhook

fun apply_op :: "(call_site \<Rightarrow> outcome) \<Rightarrow> store \<Rightarrow> core_op \<Rightarrow> store" where
  "apply_op f s (Use_credits u n) =
     (case use_credits u n s of Inl raised \<Rightarrow> s | Inr (granted, s') \<Rightarrow> s')"
| "apply_op f s (Add_credits u n) =
     (case add_credits u n s of Inl raised \<Rightarrow> s | Inr (found, s') \<Rightarrow> s')"
| "apply_op f s (Refund_processed d) = handleRefund f s d"

definition run_ops :: "(call_site \<Rightarrow> outcome) \<Rightarrow> store \<Rightarrow> core_op list \<Rightarrow> store" where
  "run_ops f s ops = foldl (apply_op f) s ops"

fun amount_nonneg :: "core_op \<Rightarrow> bool" where
  "amount_nonneg (Use_credits u n) = (0 \<le> n)"
| "amount_nonneg (Add_credits u n) = (0 \<le> n)"
| "amount_nonneg (Refund_processed d) = True"

fun is_refund :: "core_op \<Rightarrow> bool" where
  "is_refund (Refund_processed d) = True"
| "is_refund (Use_credits u n) = False"
| "is_refund (Add_credits u n) = False"

text \<open>The ledger invariant of every account, and its weaker half.\<close>

definition ledger_invariant :: "store \<Rightarrow> bool" where
  "ledger_invariant s =
     list_all (\<lambda>p. 0 \<le> used_credits p \<and> used_credits p \<le> total_credits p) (user_profiles s)"

definition counters_nonneg :: "store \<Rightarrow> bool" where
  "counters_nonneg s =
     list_all (\<lambda>p. 0 \<le> used_credits p \<and> 0 \<le> total_credits p) (user_profiles s)"

text \<open>
  Every total of the account \<open>u\<close> stays an \<^verbatim>\<open>INTEGER\<close> when \<open>n\<close> is added to it.
\<close>

definition totals_fit :: "uuid \<Rightarrow> int \<Rightarrow> store \<Rightarrow> bool" where
  "totals_fit u n s =
     (\<not> list_ex (\<lambda>q. profile_id q = u \<and> \<not> int4 (total_credits q + n)) (user_profiles s))"

text \<open>The store fails at one call site, in the given way, and runs everywhere else.\<close>

definition fails_at :: "call_site \<Rightarrow> outcome \<Rightarrow> call_site \<Rightarrow> outcome" where
  "fails_at site oc c = (if c = site then oc else Runs)"

subsection \<open>Example data\<close>

definition demo_store :: store where
  "demo_store =
     \<lparr>user_profiles = [handle_new_user ''u1'' ''ann@example.org'',
                        handle_new_user ''u2'' ''bob@example.org''],
      transactions = []\<rparr>"

definition demo_purchase :: GrooveSellWebhook where
  "demo_purchase =
     \<lparr>event_type = ''purchase.completed'', order_id = ''O1'',
      customer_email = ''ann@example.org'', product_id = ''P1'',
      product_name = ''Coloring pages'', wh_amount = 10, wh_currency = ''USD'',
      wh_status = Wh_completed, wh_subscription_type = Some Yearly,
      created_at = ''2025-01-01''\<rparr>"

text \<open>A purchase that names no subscription type, and one for an unknown customer.\<close>

definition demo_purchase_plain :: GrooveSellWebhook where
  "demo_purchase_plain =
     demo_purchase\<lparr>order_id := ''O2'', wh_subscription_type := None\<rparr>"

definition demo_purchase_stranger :: GrooveSellWebhook where
  "demo_purchase_stranger =
     demo_purchase\<lparr>order_id := ''O3'', customer_email := ''eve@example.org''\<rparr>"

definition demo_refund :: GrooveSellWebhook where
  "demo_refund =
     \<lparr>event_type = ''refund.processed'', order_id = ''O1'',
      customer_email = ''ann@example.org'', product_id = ''P1'',
      product_name = ''Coloring pages'', wh_amount = 10, wh_currency = ''USD'',
      wh_status = Wh_refunded, wh_subscription_type = None,
      created_at = ''2025-01-02''\<rparr>"

text \<open>The refund of \<open>O1\<close> under an email that no profile has.\<close>

definition demo_refund_stranger :: GrooveSellWebhook where
  "demo_refund_stranger = demo_refund\<lparr>customer_email := ''eve@example.org''\<rparr>"

text \<open>
  An environment for the examples: the digest is a stand-in (any function will do for
  the endpoint's control flow), and five bodies parse.
\<close>

definition demo_parse :: "string \<Rightarrow> GrooveSellWebhook option" where
  "demo_parse body =
     (if body = ''purchase O1'' then Some demo_purchase
      else if body = ''purchase O2'' then Some demo_purchase_plain
      else if body = ''purchase O3'' then Some demo_purchase_stranger
      else if body = ''refund O1'' then Some demo_refund
      else if body = ''refund O1 eve'' then Some demo_refund_stranger
      else None)"

definition demo_env :: env where
  "demo_env =
     \<lparr>GROOVESELL_WEBHOOK_SECRET = Some ''whsec'',
      NEXT_PUBLIC_CREDITS_PER_MONTH = None,
      createHmac_sha256_hex = (\<lambda>secret payload. secret @ payload),
      JSON_parse = demo_parse\<rparr>"

text \<open>A delivery of a body with its matching signature header.\<close>

definition deliver :: "(call_site \<Rightarrow> outcome) \<Rightarrow> store \<Rightarrow> string \<Rightarrow> response \<times> store" where
  "deliver f s body = POST demo_env f s body (Some (''sha256=whsec'' @ body))"

text \<open>
  The example store after the purchase \<open>O1\<close>, after its refund, and after the purchase
  with the buyer's profile row gone.
\<close>

definition demo_store_purchased :: store where
  "demo_store_purchased = snd (deliver no_faults demo_store ''purchase O1'')"

definition demo_store_refunded :: store where
  "demo_store_refunded = snd (deliver no_faults demo_store_purchased ''refund O1'')"

text \<open>The example store with the first account's \<open>used_credits\<close> at the lower end of the range.\<close>

definition demo_store_minimum :: store where
  "demo_store_minimum =
     demo_store\<lparr>user_profiles :=
       [(handle_new_user ''u1'' ''ann@example.org'')\<lparr>used_credits := - 2147483648\<rparr>,
        handle_new_user ''u2'' ''bob@example.org'']\<rparr>"

definition demo_store_orphan :: store where
  "demo_store_orphan =
     demo_store_purchased\<lparr>user_profiles := [handle_new_user ''u2'' ''bob@example.org'']\<rparr>"

section \<open>Auxiliary facts\<close>

lemma map_if_key_list_update:
  "distinct (map k xs) \<Longrightarrow> i < length xs \<Longrightarrow>
   map (\<lambda>q. if k q = k (xs ! i) then g q else q) xs = xs[i := g (xs ! i)]"
proof (induction xs arbitrary: i)
  case Nil
  then show ?case by simp
next
  case (Cons x xs)
  show ?case
  proof (cases i)
    case 0
    have "\<forall>q \<in> set xs. k q \<noteq> k x" using Cons.prems(1) by (force simp: image_iff)
    then have "map (\<lambda>q. if k q = k x then g q else q) xs = xs"
      by (simp add: map_idI)
    with 0 show ?thesis by simp
  next
    case (Suc j)
    then have j: "j < length xs" using Cons.prems(2) by simp
    then have "xs ! j \<in> set xs" by simp
    then have "k x \<noteq> k (xs ! j)" using Cons.prems(1) by auto
    moreover have "distinct (map k xs)" using Cons.prems(1) by simp
    ultimately show ?thesis using Suc j Cons.IH [of j] by simp
  qed
qed

lemma find_key_nth:
  "distinct (map k xs) \<Longrightarrow> i < length xs \<Longrightarrow> find (\<lambda>q. k q = k (xs ! i)) xs = Some (xs ! i)"
proof (induction xs arbitrary: i)
  case Nil
  then show ?case by simp
next
  case (Cons x xs)
  show ?case
  proof (cases i)
    case 0
    then show ?thesis by simp
  next
    case (Suc j)
    then have j: "j < length xs" using Cons.prems(2) by simp
    then have "xs ! j \<in> set xs" by simp
    then have "k x \<noteq> k (xs ! j)" using Cons.prems(1) by auto
    moreover have "distinct (map k xs)" using Cons.prems(1) by simp
    ultimately show ?thesis using Suc j Cons.IH [of j] by simp
  qed
qed

lemma select_profile_nth:
  "primary_key s \<Longrightarrow> i < length (user_profiles s) \<Longrightarrow> user_profiles s ! i = p \<Longrightarrow>
   select_profile (profile_id p) s = Some p"
  unfolding primary_key_def select_profile_def
  using find_key_nth [of profile_id "user_profiles s" i] by auto

lemma update_profiles_nth:
  "primary_key s \<Longrightarrow> i < length (user_profiles s) \<Longrightarrow> user_profiles s ! i = p \<Longrightarrow>
   update_profiles (\<lambda>q. profile_id q = profile_id p) g s
     = s\<lparr>user_profiles := (user_profiles s)[i := g p]\<rparr>"
  unfolding primary_key_def update_profiles_def
  using map_if_key_list_update [of profile_id "user_profiles s" i g] by auto

lemma primary_key_demo_store: "primary_key demo_store"
  by (simp add: primary_key_def demo_store_def handle_new_user_def)

lemma verifyWebhookSignature_True:
  "(verifyWebhookSignature e body sg secret = Inr True)
     = (sg = ''sha256='' @ createHmac_sha256_hex e secret body)"
  by (auto simp: verifyWebhookSignature_def timingSafeEqual_def Let_def)

lemma POST_rejects:
  "verifyWebhookSignature e body sg secret \<noteq> Inr True \<Longrightarrow>
   (case verifyWebhookSignature e body sg secret of
      Inl thrown \<Rightarrow> ((Error ''Internal server error'', 500), s)
    | Inr False \<Rightarrow> ((Error ''Invalid signature'', 401), s)
    | Inr True \<Rightarrow> r) \<in> {((Error ''Internal server error'', 500), s),
                         ((Error ''Invalid signature'', 401), s)}"
  by (cases "verifyWebhookSignature e body sg secret") (auto split: bool.splits)

lemma POST_authentic:
  "authentic e body signature d \<Longrightarrow>
   POST e f s body signature = ((Success_true, 200), dispatch e f s d)"
  by (auto simp: authentic_def signature_matches_def POST_def falsy_def
        verifyWebhookSignature_def timingSafeEqual_def split: option.splits)

subsection \<open>Lookups and updates\<close>

lemma single_Inr_iff: "(single P xs = Inr p) = (filter P xs = [p])"
  by (auto simp: single_def split: list.splits)

lemma single_no_rows: "\<forall>x \<in> set xs. \<not> P x \<Longrightarrow> single P xs = Inl No_rows"
proof -
  assume "\<forall>x \<in> set xs. \<not> P x"
  then have "filter P xs = []" by (simp add: filter_empty_conv)
  then show ?thesis by (simp add: single_def)
qed

lemma single_map_preserving:
  assumes "single P xs = Inr p" and "\<And>q. P (h q) = P q"
  shows "single P (map h xs) = Inr (h p)"
proof -
  have "P \<circ> h = P" using assms(2) by (simp add: fun_eq_iff)
  moreover have "filter P xs = [p]" using assms(1) by (simp add: single_Inr_iff)
  ultimately have "filter P (map h xs) = [h p]" by (simp add: filter_map)
  then show ?thesis by (simp add: single_Inr_iff)
qed

lemma update_profiles_no_rows:
  "\<forall>p \<in> set (user_profiles s). \<not> P p \<Longrightarrow> update_profiles P g s = s"
proof -
  assume "\<forall>p \<in> set (user_profiles s). \<not> P p"
  then have "map (\<lambda>p. if P p then g p else p) (user_profiles s) = user_profiles s"
    by (simp add: map_idI)
  then show ?thesis by (simp add: update_profiles_def)
qed

lemma find_key_unique:
  "distinct (map k xs) \<Longrightarrow> find (\<lambda>q. k q = u) xs = Some p \<Longrightarrow> q \<in> set xs \<Longrightarrow> k q = u
   \<Longrightarrow> q = p"
proof (induction xs)
  case Nil
  then show ?case by simp
next
  case (Cons x xs)
  show ?case
  proof (cases "k x = u")
    case True
    with Cons.prems(2) have "p = x" by simp
    moreover have "q = x"
    proof (rule ccontr)
      assume "q \<noteq> x"
      with Cons.prems(3) have "q \<in> set xs" by simp
      then have "k q \<in> k ` set xs" by simp
      with Cons.prems(1,4) True show False by simp
    qed
    ultimately show ?thesis by simp
  next
    case False
    with Cons.prems(3,4) have "q \<in> set xs" by auto
    moreover from False Cons.prems(2) have "find (\<lambda>q. k q = u) xs = Some p" by simp
    moreover from Cons.prems(1) have "distinct (map k xs)" by simp
    ultimately show ?thesis using Cons.IH Cons.prems(4) by simp
  qed
qed

lemma list_ex_key:
  assumes "primary_key s" and "i < length (user_profiles s)" and "user_profiles s ! i = p"
  shows "list_ex (\<lambda>q. profile_id q = profile_id p \<and> Q q) (user_profiles s) = Q p"
proof -
  have mem: "p \<in> set (user_profiles s)" using assms(2,3) by auto
  have uniq: "\<And>q. q \<in> set (user_profiles s) \<Longrightarrow> profile_id q = profile_id p \<Longrightarrow> q = p"
    using find_key_unique [of profile_id "user_profiles s" "profile_id p" p]
      select_profile_nth [OF assms] assms(1)
    by (simp add: primary_key_def select_profile_def)
  show ?thesis
    using mem uniq by (auto simp: list_ex_iff)
qed

subsection \<open>The handlers when every store call runs\<close>

lemma attempt_no_faults [simp]: "attempt (no_faults c) r = Some r"
  by (simp add: attempt_def no_faults_def)

lemma dispatch_purchase:
  "event_type d = ''purchase.completed'' \<or> event_type d = ''subscription.created'' \<Longrightarrow>
   dispatch e f s d = handlePurchaseCompleted e f s d"
  by (simp add: dispatch_def)

lemma dispatch_refund:
  "event_type d = ''refund.processed'' \<Longrightarrow> dispatch e f s d = handleRefund f s d"
  by (simp add: dispatch_def)

lemma handlePurchaseCompleted_no_faults:
  assumes "single (\<lambda>q. email q = customer_email d) (user_profiles s) = Inr p"
    and "int4 (getCreditsForPurchase e)"
    and "totals_fit (profile_id p) (getCreditsForPurchase e) s"
  shows "handlePurchaseCompleted e no_faults s d =
           s\<lparr>user_profiles :=
               map (\<lambda>q. if profile_id q = profile_id p
                        then q\<lparr>total_credits := total_credits q + getCreditsForPurchase e,
                               subscription_status := Active,
                               subscription_type := Some (subscription_type_or_monthly d),
                               groovesell_customer_id := Some (order_id d)\<rparr>
                        else q) (user_profiles s),
             transactions :=
               (if list_ex (\<lambda>t. groovesell_order_id t = order_id d) (transactions s)
                then transactions s
                else transactions s @ [purchase_row (profile_id p) (getCreditsForPurchase e) d])\<rparr>"
  using assms
  by (simp add: handlePurchaseCompleted_def add_credits_def totals_fit_def update_profiles_def
        insert_transaction_def purchase_row_def o_def Let_def cong: if_cong)

lemma handlePurchaseCompleted_raises:
  assumes "single (\<lambda>q. email q = customer_email d) (user_profiles s) = Inr p"
    and "\<not> (int4 (getCreditsForPurchase e)
             \<and> totals_fit (profile_id p) (getCreditsForPurchase e) s)"
  shows "handlePurchaseCompleted e no_faults s d = s"
  using assms
  by (auto simp: handlePurchaseCompleted_def add_credits_def totals_fit_def Let_def)

lemma totals_fit_after_purchase:
  "totals_fit u m
     (s\<lparr>user_profiles :=
          map (\<lambda>q. if profile_id q = u
                   then q\<lparr>total_credits := total_credits q + m, subscription_status := st,
                          subscription_type := ty, groovesell_customer_id := g\<rparr>
                   else q) (user_profiles s),
        transactions := ts\<rparr>)
   = totals_fit u (2 * m) s"
proof -
  let ?h = "\<lambda>q. if profile_id q = u
                then q\<lparr>total_credits := total_credits q + m, subscription_status := st,
                       subscription_type := ty, groovesell_customer_id := g\<rparr>
                else q"
  have step: "(profile_id (?h q) = u \<and> \<not> int4 (total_credits (?h q) + m))
              = (profile_id q = u \<and> \<not> int4 (total_credits q + 2 * m))" for q
  proof (cases "profile_id q = u")
    case True
    then show ?thesis by (simp add: algebra_simps)
  next
    case False
    then show ?thesis by simp
  qed
  have "list_ex (\<lambda>q. profile_id q = u \<and> \<not> int4 (total_credits q + m))
          (map ?h (user_profiles s))
        = list_ex (\<lambda>q. profile_id (?h q) = u \<and> \<not> int4 (total_credits (?h q) + m))
            (user_profiles s)"
    unfolding list_ex_iff by (simp only: set_map bex_simps)
  also have "\<dots> = list_ex (\<lambda>q. profile_id q = u \<and> \<not> int4 (total_credits q + 2 * m))
                     (user_profiles s)"
    by (simp only: step)
  finally show ?thesis
    by (simp add: totals_fit_def)
qed

lemma single_email_after_purchase:
  assumes "single (\<lambda>q. email q = c) xs = Inr p"
  shows "single (\<lambda>q. email q = c)
           (map (\<lambda>q. if profile_id q = u
                     then q\<lparr>total_credits := n q, subscription_status := st,
                            subscription_type := ty, groovesell_customer_id := g\<rparr>
                     else q) xs)
         = Inr (if profile_id p = u
                then p\<lparr>total_credits := n p, subscription_status := st,
                       subscription_type := ty, groovesell_customer_id := g\<rparr>
                else p)"
  by (rule single_map_preserving [OF assms]) simp

lemma handleRefund_no_faults:
  assumes "single (\<lambda>t. groovesell_order_id t = order_id d) (transactions s) = Inr t"
    and "single (\<lambda>q. profile_id q = user_id t) (user_profiles s) = Inr p"
  shows "handleRefund no_faults s d =
           s\<lparr>user_profiles :=
               map (\<lambda>q. if profile_id q = user_id t
                        then q\<lparr>total_credits :=
                                 total_credits p - min (credits_added t) (total_credits p),
                               subscription_status := Cancelled\<rparr>
                        else q) (user_profiles s),
             transactions :=
               (if list_ex (\<lambda>x. groovesell_order_id x = order_id d @ ''-refund'')
                     (transactions s)
                then transactions s
                else transactions s @ [refund_row t d])\<rparr>"
proof -
  have "max 0 (total_credits p - min (credits_added t) (total_credits p))
          = total_credits p - min (credits_added t) (total_credits p)"
    by simp
  then show ?thesis
    using assms
    by (simp add: handleRefund_def update_profiles_def insert_transaction_def refund_row_def
          Let_def cong: if_cong)
qed

lemma handleRefund_no_profile:
  assumes "single (\<lambda>t. groovesell_order_id t = order_id d) (transactions s) = Inr t"
    and "\<forall>q \<in> set (user_profiles s). profile_id q \<noteq> user_id t"
  shows "handleRefund no_faults s d =
           s\<lparr>transactions :=
               (if list_ex (\<lambda>x. groovesell_order_id x = order_id d @ ''-refund'')
                     (transactions s)
                then transactions s
                else transactions s @ [refund_row t d])\<rparr>"
proof -
  have "single (\<lambda>q. profile_id q = user_id t) (user_profiles s) = Inl No_rows"
    using assms(2) by (simp add: single_no_rows)
  then show ?thesis
    using assms(1)
    by (simp add: handleRefund_def insert_transaction_def refund_row_def)
qed

subsection \<open>The handlers when the referenced row is missing\<close>

lemma handlePurchaseCompleted_unresolved:
  "\<forall>p \<in> set (user_profiles s). email p \<noteq> customer_email d \<Longrightarrow>
   handlePurchaseCompleted e f s d = s"
  by (simp add: handlePurchaseCompleted_def single_no_rows attempt_def split: outcome.splits)

lemma handleSubscriptionRenewed_unresolved:
  "\<forall>p \<in> set (user_profiles s). email p \<noteq> customer_email d \<Longrightarrow>
   handleSubscriptionRenewed e f s d = s"
  by (simp add: handleSubscriptionRenewed_def single_no_rows attempt_def split: outcome.splits)

lemma handleSubscriptionCancelled_unresolved:
  "\<forall>p \<in> set (user_profiles s). email p \<noteq> customer_email d \<Longrightarrow>
   handleSubscriptionCancelled f s d = s"
  by (simp add: handleSubscriptionCancelled_def update_profiles_no_rows attempt_def
        split: outcome.splits)

lemma handleRefund_unresolved:
  "\<forall>t \<in> set (transactions s). groovesell_order_id t \<noteq> order_id d \<Longrightarrow>
   handleRefund f s d = s"
  by (simp add: handleRefund_def single_no_rows attempt_def split: outcome.splits)

subsection \<open>Invariants under the core operations\<close>

lemma use_credits_profiles:
  "user_profiles (apply_op f s (Use_credits u n)) = user_profiles s
   \<or> (\<exists>p. select_profile u s = Some p \<and> n \<le> total_credits p - used_credits p
          \<and> user_profiles (apply_op f s (Use_credits u n)) =
              map (\<lambda>q. if profile_id q = u then q\<lparr>used_credits := used_credits q + n\<rparr> else q)
                (user_profiles s))"
  by (cases "select_profile u s")
     (simp_all add: use_credits_def update_profiles_def Let_def)

lemma use_credits_primary_key:
  "primary_key s \<Longrightarrow> primary_key (apply_op f s (Use_credits u n))"
  using use_credits_profiles [of f s u n]
  by (auto simp: primary_key_def o_def if_distrib cong: if_cong)

lemma use_credits_ledger_invariant:
  assumes "primary_key s" and "0 \<le> n" and "ledger_invariant s"
  shows "ledger_invariant (apply_op f s (Use_credits u n))"
  using use_credits_profiles [of f s u n]
proof
  assume "user_profiles (apply_op f s (Use_credits u n)) = user_profiles s"
  with assms(3) show ?thesis by (simp add: ledger_invariant_def)
next
  assume "\<exists>p. select_profile u s = Some p \<and> n \<le> total_credits p - used_credits p
          \<and> user_profiles (apply_op f s (Use_credits u n)) =
              map (\<lambda>q. if profile_id q = u then q\<lparr>used_credits := used_credits q + n\<rparr> else q)
                (user_profiles s)"
  then obtain p where p: "select_profile u s = Some p"
    and enough: "n \<le> total_credits p - used_credits p"
    and upd: "user_profiles (apply_op f s (Use_credits u n)) =
              map (\<lambda>q. if profile_id q = u then q\<lparr>used_credits := used_credits q + n\<rparr> else q)
                (user_profiles s)"
    by blast
  have "\<And>q. q \<in> set (user_profiles s) \<Longrightarrow> profile_id q = u \<Longrightarrow> q = p"
    using find_key_unique [of profile_id "user_profiles s" u p] assms(1) p
    by (simp add: primary_key_def select_profile_def)
  with enough assms(2,3) show ?thesis
    unfolding ledger_invariant_def upd by (auto simp: list_all_iff)
qed

lemma use_credits_counters_nonneg:
  assumes "0 \<le> n" and "counters_nonneg s"
  shows "counters_nonneg (apply_op f s (Use_credits u n))"
  using use_credits_profiles [of f s u n] assms
  by (auto simp: counters_nonneg_def list_all_iff)

lemma add_credits_primary_key:
  "primary_key s \<Longrightarrow> primary_key (apply_op f s (Add_credits u n))"
  by (simp add: primary_key_def add_credits_def update_profiles_def o_def if_distrib
        cong: if_cong)

lemma add_credits_ledger_invariant:
  "0 \<le> n \<Longrightarrow> ledger_invariant s \<Longrightarrow> ledger_invariant (apply_op f s (Add_credits u n))"
  by (auto simp: ledger_invariant_def add_credits_def update_profiles_def list_all_iff)

lemma add_credits_counters_nonneg:
  "0 \<le> n \<Longrightarrow> counters_nonneg s \<Longrightarrow> counters_nonneg (apply_op f s (Add_credits u n))"
  by (auto simp: counters_nonneg_def add_credits_def update_profiles_def list_all_iff)

lemma handleRefund_counters_nonneg:
  "counters_nonneg s \<Longrightarrow> counters_nonneg (handleRefund f s d)"
  by (auto simp: counters_nonneg_def handleRefund_def attempt_def update_profiles_def
        insert_transaction_def list_all_iff Let_def
        split: outcome.splits sum.splits option.splits)

lemma apply_op_counters_nonneg:
  "amount_nonneg x \<Longrightarrow> counters_nonneg s \<Longrightarrow> counters_nonneg (apply_op f s x)"
  by (cases x)
     (simp_all add: use_credits_counters_nonneg add_credits_counters_nonneg
        handleRefund_counters_nonneg del: apply_op.simps(1,2))

lemma apply_op_ledger_invariant:
  "amount_nonneg x \<Longrightarrow> \<not> is_refund x \<Longrightarrow> primary_key s \<and> ledger_invariant s \<Longrightarrow>
   primary_key (apply_op f s x) \<and> ledger_invariant (apply_op f s x)"
  by (cases x)
     (simp_all add: use_credits_ledger_invariant add_credits_ledger_invariant
        use_credits_primary_key add_credits_primary_key del: apply_op.simps(1,2))

lemma run_ops_counters_nonneg:
  "list_all amount_nonneg ops \<Longrightarrow> counters_nonneg s \<Longrightarrow> counters_nonneg (run_ops f s ops)"
  unfolding run_ops_def
  by (induction ops arbitrary: s) (simp_all add: apply_op_counters_nonneg)

lemma run_ops_ledger_invariant:
  "list_all amount_nonneg ops \<Longrightarrow> \<not> list_ex is_refund ops \<Longrightarrow>
   primary_key s \<and> ledger_invariant s \<Longrightarrow>
   primary_key (run_ops f s ops) \<and> ledger_invariant (run_ops f s ops)"
  unfolding run_ops_def
proof (induction ops arbitrary: s)
  case Nil
  then show ?case by simp
next
  case (Cons x ops)
  from Cons.prems have "primary_key (apply_op f s x) \<and> ledger_invariant (apply_op f s x)"
    using apply_op_ledger_invariant [of x s f] by simp
  with Cons.prems Cons.IH [of "apply_op f s x"] show ?case by simp
qed

subsection \<open>The example runs\<close>

lemmas demo_defs = deliver_def demo_env_def demo_parse_def demo_purchase_def
  demo_purchase_plain_def demo_purchase_stranger_def demo_refund_def demo_store_def
  handle_new_user_def

lemmas run_defs = POST_def falsy_def verifyWebhookSignature_def timingSafeEqual_def
  dispatch_def handlePurchaseCompleted_def handleRefund_def attempt_def no_faults_def
  fails_at_def single_def add_credits_def use_credits_def get_available_credits_def
  select_profile_def update_profiles_def insert_transaction_def purchase_row_def
  refund_row_def getCreditsForPurchase_def subscription_type_or_monthly_def Let_def
  int4_def utf8_length_def

lemma authentic_demo:
  "demo_parse body = Some d \<Longrightarrow>
   authentic demo_env body (Some (''sha256=whsec'' @ body)) d"
  by (simp add: authentic_def falsy_def signature_matches_def demo_env_def)

lemma demo_store_purchased_eq:
  "demo_store_purchased =
     \<lparr>user_profiles =
        [\<lparr>profile_id = ''u1'', email = ''ann@example.org'', subscription_status = Active,
          subscription_type = Some Yearly, total_credits = 8, used_credits = 0,
          groovesell_customer_id = Some ''O1''\<rparr>,
         \<lparr>profile_id = ''u2'', email = ''bob@example.org'', subscription_status = Inactive,
          subscription_type = None, total_credits = 3, used_credits = 0,
          groovesell_customer_id = None\<rparr>],
      transactions =
        [\<lparr>user_id = ''u1'', groovesell_order_id = ''O1'', transaction_type = Purchase,
          credits_added = 5, amount = 10, currency = ''USD'',
          tx_subscription_type = Some Yearly, status = Completed\<rparr>]\<rparr>"
  unfolding demo_store_purchased_def
  by (simp add: demo_defs run_defs)

lemma demo_store_refunded_eq:
  "demo_store_refunded =
     \<lparr>user_profiles =
        [\<lparr>profile_id = ''u1'', email = ''ann@example.org'', subscription_status = Cancelled,
          subscription_type = Some Yearly, total_credits = 3, used_credits = 0,
          groovesell_customer_id = Some ''O1''\<rparr>,
         \<lparr>profile_id = ''u2'', email = ''bob@example.org'', subscription_status = Inactive,
          subscription_type = None, total_credits = 3, used_credits = 0,
          groovesell_customer_id = None\<rparr>],
      transactions =
        [\<lparr>user_id = ''u1'', groovesell_order_id = ''O1'', transaction_type = Purchase,
          credits_added = 5, amount = 10, currency = ''USD'',
          tx_subscription_type = Some Yearly, status = Completed\<rparr>,
         \<lparr>user_id = ''u1'', groovesell_order_id = ''O1-refund'', transaction_type = Refund,
          credits_added = - 5, amount = - 10, currency = ''USD'',
          tx_subscription_type = None, status = Completed\<rparr>]\<rparr>"
  unfolding demo_store_refunded_def demo_store_purchased_eq
  by (simp add: demo_defs run_defs)

lemma demo_store_orphan_eq:
  "demo_store_orphan =
     \<lparr>user_profiles = [handle_new_user ''u2'' ''bob@example.org''],
      transactions =
        [\<lparr>user_id = ''u1'', groovesell_order_id = ''O1'', transaction_type = Purchase,
          credits_added = 5, amount = 10, currency = ''USD'',
          tx_subscription_type = Some Yearly, status = Completed\<rparr>]\<rparr>"
  unfolding demo_store_orphan_def demo_store_purchased_eq by simp

lemma single_email_demo_store:
  "single (\<lambda>q. email q = customer_email demo_purchase) (user_profiles demo_store)
     = Inr (handle_new_user ''u1'' ''ann@example.org'')"
  by (simp add: single_def demo_store_def demo_purchase_def handle_new_user_def)

lemma primary_key_demo_store_purchased: "primary_key demo_store_purchased"
  unfolding demo_store_purchased_eq by (simp add: primary_key_def)

section \<open>The Credit Guard: \<^verbatim>\<open>use_credits\<close>\<close>

text \<open>
  Against claim C3. The first example account has three credits and has used none.
  \<open>use_credits\<close> with the amount \<open>-2147483648\<close> is granted, since the balance is not
  below it, and leaves \<open>used_credits\<close> at \<open>-2147483648\<close>. The balance is then
  \<open>3 + 2147483648\<close>, which is no \<^verbatim>\<open>INTEGER\<close>: a request for one credit raises
  \<^verbatim>\<open>integer out of range\<close>, although the balance is above the amount, and returns
  neither true nor false.
\<close>

theorem use_credits_out_of_range_counterexample:
  "use_credits ''u1'' (- 2147483648) demo_store = Inr (True, demo_store_minimum)
   \<and> map total_credits (user_profiles demo_store_minimum) = [3, 3]
   \<and> map used_credits (user_profiles demo_store_minimum) = [- 2147483648, 0]
   \<and> use_credits ''u1'' 1 demo_store_minimum = Inl Integer_out_of_range"
  by (simp add: use_credits_def select_profile_def update_profiles_def int4_def
        demo_store_minimum_def demo_store_def handle_new_user_def)

text \<open>
  Claim C3, amended. For an existing account (row \<open>i\<close> of the table, with its primary
  key) and every requested amount \<open>n\<close>: when \<open>n\<close>, the balance
  \<open>total_credits - used_credits\<close> and, if the balance is at least \<open>n\<close>, the sum
  \<open>used_credits + n\<close> are in the range of \<^verbatim>\<open>INTEGER\<close>, then \<open>use_credits\<close> returns
  true with the store changed in that single row, whose \<open>used_credits\<close> has grown by
  exactly \<open>n\<close>, when the balance is at least \<open>n\<close>, and returns false with the store as
  it was when the balance is smaller. Otherwise it raises \<^verbatim>\<open>integer out of range\<close> and
  changes nothing.
\<close>

theorem use_credits_grants_refuses_or_raises:
  assumes "primary_key s" and "i < length (user_profiles s)" and "user_profiles s ! i = p"
  shows "use_credits (profile_id p) n s =
           (if \<not> int4 n \<or> \<not> int4 (total_credits p - used_credits p)
            then Inl Integer_out_of_range
            else if n \<le> total_credits p - used_credits p
            then (if int4 (used_credits p + n)
                  then Inr (True, s\<lparr>user_profiles :=
                          (user_profiles s)[i := p\<lparr>used_credits := used_credits p + n\<rparr>]\<rparr>)
                  else Inl Integer_out_of_range)
            else Inr (False, s))"
  using assms list_ex_key [OF assms, of "\<lambda>q. \<not> int4 (used_credits q + n)"]
  by (simp add: use_credits_def select_profile_nth update_profiles_nth Let_def)

text \<open>
  The theorem at the first account of the example store, which has three credits: one
  credit is granted, four are refused.
\<close>

theorem use_credits_grants_refuses_or_raises_witness:
  "primary_key demo_store \<and> 0 < length (user_profiles demo_store)
   \<and> use_credits ''u1'' 1 demo_store =
       Inr (True, demo_store\<lparr>user_profiles :=
                [(handle_new_user ''u1'' ''ann@example.org'')\<lparr>used_credits := 1\<rparr>,
                 handle_new_user ''u2'' ''bob@example.org'']\<rparr>)
   \<and> use_credits ''u1'' 4 demo_store = Inr (False, demo_store)"
proof -
  have i: "0 < length (user_profiles demo_store)"
    by (simp add: demo_store_def)
  have r: "user_profiles demo_store ! 0 = handle_new_user ''u1'' ''ann@example.org''"
    by (simp add: demo_store_def)
  from use_credits_grants_refuses_or_raises [OF primary_key_demo_store i r, of 1]
       use_credits_grants_refuses_or_raises [OF primary_key_demo_store i r, of 4]
       primary_key_demo_store i
  show ?thesis
    by (simp add: demo_store_def handle_new_user_def int4_def)
qed

section \<open>The Ledger Store: \<^verbatim>\<open>add_credits\<close>\<close>

text \<open>
  Against claim C6: the first example account holds three credits; \<open>add_credits\<close> with
  a delta of \<open>-5\<close> leaves it at \<open>-2\<close>, not at the floor \<open>0\<close>.
\<close>

theorem add_credits_no_floor_counterexample:
  "map total_credits (user_profiles demo_store) = [3, 3]
   \<and> add_credits ''u1'' (- 5) demo_store =
       Inr (True, demo_store\<lparr>user_profiles :=
                [(handle_new_user ''u1'' ''ann@example.org'')\<lparr>total_credits := - 2\<rparr>,
                 handle_new_user ''u2'' ''bob@example.org'']\<rparr>)"
  by (simp add: add_credits_def update_profiles_def int4_def demo_store_def
        handle_new_user_def)

text \<open>
  Claim C6, amended. For an existing account and every delta \<open>n\<close>: when \<open>n\<close> and
  \<open>total_credits + n\<close> are in the range of \<^verbatim>\<open>INTEGER\<close>, \<open>add_credits\<close> reports that it
  found the row and replaces \<open>total_credits\<close> by \<open>total_credits + n\<close>, a negative sum
  included: there is no floor. Otherwise it raises \<^verbatim>\<open>integer out of range\<close> and
  changes nothing.
\<close>

theorem add_credits_adds_delta_or_raises:
  assumes "primary_key s" and "i < length (user_profiles s)" and "user_profiles s ! i = p"
  shows "add_credits (profile_id p) n s =
           (if int4 n \<and> int4 (total_credits p + n)
            then Inr (True, s\<lparr>user_profiles :=
                    (user_profiles s)[i := p\<lparr>total_credits := total_credits p + n\<rparr>]\<rparr>)
            else Inl Integer_out_of_range)"
  using assms list_ex_key [OF assms, of "\<lambda>q. \<not> int4 (total_credits q + n)"]
    list_ex_key [OF assms, of "\<lambda>q. True"]
  by (auto simp: add_credits_def update_profiles_nth)

text \<open>
  The theorem at the second example account, which holds three credits: the delta
  \<open>-5\<close> leaves \<open>-2\<close>, and the delta \<open>2147483647\<close> raises.
\<close>

theorem add_credits_adds_delta_or_raises_witness:
  "primary_key demo_store \<and> 1 < length (user_profiles demo_store)
   \<and> add_credits ''u2'' (- 5) demo_store =
       Inr (True, demo_store\<lparr>user_profiles :=
                [handle_new_user ''u1'' ''ann@example.org'',
                 (handle_new_user ''u2'' ''bob@example.org'')\<lparr>total_credits := - 2\<rparr>]\<rparr>)
   \<and> add_credits ''u2'' 2147483647 demo_store = Inl Integer_out_of_range"
proof -
  have i: "1 < length (user_profiles demo_store)"
    by (simp add: demo_store_def)
  have r: "user_profiles demo_store ! 1 = handle_new_user ''u2'' ''bob@example.org''"
    by (simp add: demo_store_def)
  from add_credits_adds_delta_or_raises [OF primary_key_demo_store i r, of "- 5"]
       add_credits_adds_delta_or_raises [OF primary_key_demo_store i r, of 2147483647]
       primary_key_demo_store i
  show ?thesis
    by (simp add: demo_store_def handle_new_user_def int4_def)
qed

section \<open>The ledger invariant\<close>

text \<open>
  Against claim C2. With the purchase \<open>O1\<close> booked, the first example account holds
  eight credits and has used none. It uses all eight, and the refund of \<open>O1\<close> then
  takes five from \<open>total_credits\<close> and leaves \<open>used_credits\<close> at eight, above the
  total of three. Nor do the counters stay at or above zero for every amount:
  \<open>add_credits\<close> with \<open>-5\<close> drives the total of a fresh account to \<open>-2\<close>, and
  \<open>use_credits\<close> with \<open>-1\<close> is granted and drives \<open>used_credits\<close> to \<open>-1\<close>.
\<close>

theorem ledger_invariant_counterexample:
  "ledger_invariant demo_store_purchased
   \<and> \<not> ledger_invariant
       (run_ops no_faults demo_store_purchased
          [Use_credits ''u1'' 8, Refund_processed demo_refund])
   \<and> ledger_invariant demo_store
   \<and> \<not> counters_nonneg (run_ops no_faults demo_store [Add_credits ''u1'' (- 5)])
   \<and> \<not> counters_nonneg (run_ops no_faults demo_store [Use_credits ''u1'' (- 1)])"
  unfolding demo_store_purchased_eq
  by (simp add: ledger_invariant_def counters_nonneg_def run_ops_def demo_defs run_defs)


text \<open>
  Claim C2, amended. Let the amounts passed to \<open>use_credits\<close> and \<open>add_credits\<close> be
  non-negative. Then every sequence of core operations, refunds included and whatever
  store call fails in them, keeps both counters of every account at or above zero; and
  every sequence of \<open>use_credits\<close> and \<open>add_credits\<close> calls keeps
  \<open>0 \<le> used_credits \<le> total_credits\<close> for every account.
\<close>

theorem ledger_invariant_of_uses_and_grants:
  assumes "list_all amount_nonneg ops" and "primary_key s"
  shows "(counters_nonneg s \<longrightarrow> counters_nonneg (run_ops f s ops))
         \<and> (\<not> list_ex is_refund ops \<and> ledger_invariant s
              \<longrightarrow> ledger_invariant (run_ops f s ops))"
  using assms run_ops_counters_nonneg [of ops s f] run_ops_ledger_invariant [of ops s f]
  by blast

theorem ledger_invariant_of_uses_and_grants_witness:
  "list_all amount_nonneg [Add_credits ''u1'' 5, Use_credits ''u1'' 8, Use_credits ''u1'' 1]
   \<and> primary_key demo_store
   \<and> \<not> list_ex is_refund [Add_credits ''u1'' 5, Use_credits ''u1'' 8, Use_credits ''u1'' 1]
   \<and> ledger_invariant demo_store
   \<and> ledger_invariant
       (run_ops no_faults demo_store
          [Add_credits ''u1'' 5, Use_credits ''u1'' 8, Use_credits ''u1'' 1])
   \<and> list_all amount_nonneg [Use_credits ''u1'' 8, Refund_processed demo_refund]
   \<and> primary_key demo_store_purchased
   \<and> counters_nonneg demo_store_purchased
   \<and> counters_nonneg
       (run_ops no_faults demo_store_purchased
          [Use_credits ''u1'' 8, Refund_processed demo_refund])"
proof -
  have a: "list_all amount_nonneg
             [Add_credits ''u1'' 5, Use_credits ''u1'' 8, Use_credits ''u1'' 1]"
    by simp
  have b: "\<not> list_ex is_refund
             [Add_credits ''u1'' 5, Use_credits ''u1'' 8, Use_credits ''u1'' 1]"
    by simp
  have c: "ledger_invariant demo_store"
    by (simp add: ledger_invariant_def demo_store_def handle_new_user_def)
  have d: "list_all amount_nonneg [Use_credits ''u1'' 8, Refund_processed demo_refund]"
    by simp
  have e: "counters_nonneg demo_store_purchased"
    unfolding demo_store_purchased_eq by (simp add: counters_nonneg_def)
  from ledger_invariant_of_uses_and_grants [OF a primary_key_demo_store, of no_faults]
       ledger_invariant_of_uses_and_grants [OF d primary_key_demo_store_purchased, of no_faults]
       a b c d e primary_key_demo_store primary_key_demo_store_purchased
  show ?thesis by simp
qed


section \<open>The webhook endpoint\<close>

text \<open>
  Claim C4. Whatever the body: when the webhook secret is not configured, or the
  signature header is missing, or the header is not \<^verbatim>\<open>sha256=\<close> followed by the digest
  of the body, the endpoint leaves the store as it was and answers with an error body
  and status 400, 401 or 500. A missing secret is answered with 500 before the
  signature is looked at.
\<close>

theorem webhook_rejects_unauthenticated:
  assumes "falsy (GROOVESELL_WEBHOOK_SECRET e) \<or> falsy signature
           \<or> \<not> signature_matches e body signature"
  shows "snd (POST e f s body signature) = s
         \<and> fst (fst (POST e f s body signature)) \<noteq> Success_true
         \<and> snd (fst (POST e f s body signature)) \<in> {400, 401, 500}
         \<and> (falsy (GROOVESELL_WEBHOOK_SECRET e) \<longrightarrow>
                POST e f s body signature = ((Error ''Webhook secret not configured'', 500), s))"
proof (cases "falsy (GROOVESELL_WEBHOOK_SECRET e)")
  case True
  then show ?thesis by (simp add: POST_def)
next
  case nosecret: False
  show ?thesis
  proof (cases "falsy signature")
    case True
    with nosecret show ?thesis by (simp add: POST_def)
  next
    case False
    with nosecret obtain secret sg where
      k: "GROOVESELL_WEBHOOK_SECRET e = Some secret" and g: "signature = Some sg"
      by (auto simp: falsy_def split: option.splits)
    from assms nosecret False k g
    have "sg \<noteq> ''sha256='' @ createHmac_sha256_hex e secret body"
      by (simp add: signature_matches_def)
    then have "verifyWebhookSignature e body sg secret \<noteq> Inr True"
      by (simp add: verifyWebhookSignature_True)
    from POST_rejects [OF this]
    have "POST e f s body signature \<in> {((Error ''Internal server error'', 500), s),
                                        ((Error ''Invalid signature'', 401), s)}"
      using nosecret False k g by (simp add: POST_def)
    with nosecret show ?thesis by auto
  qed
qed

text \<open>
  The theorem at three requests for the purchase body: without a configured secret,
  without a signature header, and with a signature of the right length that differs in
  its last character.
\<close>

theorem webhook_rejects_unauthenticated_witness:
  "falsy (GROOVESELL_WEBHOOK_SECRET (demo_env\<lparr>GROOVESELL_WEBHOOK_SECRET := None\<rparr>))
   \<and> POST (demo_env\<lparr>GROOVESELL_WEBHOOK_SECRET := None\<rparr>) no_faults demo_store
        ''purchase O1'' (Some ''sha256=whsecpurchase O1'')
      = ((Error ''Webhook secret not configured'', 500), demo_store)
   \<and> falsy None
   \<and> snd (POST demo_env no_faults demo_store ''purchase O1'' None) = demo_store
   \<and> \<not> signature_matches demo_env ''purchase O1'' (Some ''sha256=whsecpurchase O2'')
   \<and> snd (POST demo_env no_faults demo_store ''purchase O1''
             (Some ''sha256=whsecpurchase O2'')) = demo_store"
proof -
  have a: "falsy (GROOVESELL_WEBHOOK_SECRET (demo_env\<lparr>GROOVESELL_WEBHOOK_SECRET := None\<rparr>))"
    by (simp add: falsy_def)
  have b: "falsy None"
    by (simp add: falsy_def)
  have c: "\<not> signature_matches demo_env ''purchase O1'' (Some ''sha256=whsecpurchase O2'')"
    by (simp add: signature_matches_def demo_env_def)
  from webhook_rejects_unauthenticated
         [of "demo_env\<lparr>GROOVESELL_WEBHOOK_SECRET := None\<rparr>"
             "Some ''sha256=whsecpurchase O1''" "''purchase O1''" no_faults demo_store]
       webhook_rejects_unauthenticated
         [of demo_env None "''purchase O1''" no_faults demo_store]
       webhook_rejects_unauthenticated
         [of demo_env "Some ''sha256=whsecpurchase O2''" "''purchase O1''" no_faults demo_store]
       a b c
  show ?thesis by simp
qed

section \<open>Store failures\<close>




section \<open>Events that reference nothing\<close>

text \<open>
  Against claim C9. The refund of \<open>O1\<close> arrives under an email that no profile has,
  with the purchase \<open>O1\<close> booked. The refund handler looks the order up and never
  reads the email: the buyer's account goes from eight credits to three and to status
  cancelled, and the transaction \<open>O1-refund\<close> is recorded.
\<close>

theorem refund_unknown_email_counterexample:
  "customer_email demo_refund_stranger = ''eve@example.org''
   \<and> map email (user_profiles demo_store_purchased) = [''ann@example.org'', ''bob@example.org'']
   \<and> map total_credits (user_profiles demo_store_purchased) = [8, 3]
   \<and> fst (deliver no_faults demo_store_purchased ''refund O1 eve'') = (Success_true, 200)
   \<and> map total_credits
       (user_profiles (snd (deliver no_faults demo_store_purchased ''refund O1 eve''))) = [3, 3]
   \<and> map subscription_status
       (user_profiles (snd (deliver no_faults demo_store_purchased ''refund O1 eve'')))
       = [Cancelled, Inactive]
   \<and> map groovesell_order_id
       (transactions (snd (deliver no_faults demo_store_purchased ''refund O1 eve'')))
       = [''O1'', ''O1-refund'']"
  unfolding demo_store_purchased_eq
  by (simp add: demo_refund_stranger_def demo_defs run_defs)

text \<open>
  Claim C9, amended. An authentic event other than \<^verbatim>\<open>refund.processed\<close> whose customer
  email no profile has, and an authentic \<^verbatim>\<open>refund.processed\<close> event whose order id no
  transaction has, leave the whole store as it was and are answered with
  \<^verbatim>\<open>{ success: true }\<close> and status 200, whatever the store calls do.
\<close>

theorem unresolved_event_acknowledged:
  assumes "authentic e body signature d"
    and "(event_type d \<noteq> ''refund.processed''
            \<and> (\<forall>p \<in> set (user_profiles s). email p \<noteq> customer_email d))
         \<or> (event_type d = ''refund.processed''
            \<and> (\<forall>t \<in> set (transactions s). groovesell_order_id t \<noteq> order_id d))"
  shows "POST e f s body signature = ((Success_true, 200), s)"
proof -
  have "dispatch e f s d = s"
    using assms(2)
    by (auto simp: dispatch_def handlePurchaseCompleted_unresolved
          handleSubscriptionRenewed_unresolved handleSubscriptionCancelled_unresolved
          handleRefund_unresolved)
  with assms(1) show ?thesis by (simp add: POST_authentic)
qed

theorem unresolved_event_acknowledged_witness:
  "authentic demo_env ''purchase O3'' (Some (''sha256=whsec'' @ ''purchase O3''))
     demo_purchase_stranger
   \<and> event_type demo_purchase_stranger = ''purchase.completed''
   \<and> customer_email demo_purchase_stranger = ''eve@example.org''
   \<and> map email (user_profiles demo_store) = [''ann@example.org'', ''bob@example.org'']
   \<and> deliver no_faults demo_store ''purchase O3'' = ((Success_true, 200), demo_store)
   \<and> authentic demo_env ''refund O1'' (Some (''sha256=whsec'' @ ''refund O1'')) demo_refund
   \<and> event_type demo_refund = ''refund.processed''
   \<and> transactions demo_store = []
   \<and> deliver no_faults demo_store ''refund O1'' = ((Success_true, 200), demo_store)"
proof -
  have a: "authentic demo_env ''purchase O3'' (Some (''sha256=whsec'' @ ''purchase O3''))
             demo_purchase_stranger"
    by (rule authentic_demo) (simp add: demo_parse_def)
  have b: "event_type demo_purchase_stranger \<noteq> ''refund.processed''
           \<and> (\<forall>p \<in> set (user_profiles demo_store).
                 email p \<noteq> customer_email demo_purchase_stranger)"
    by (simp add: demo_purchase_stranger_def demo_purchase_def demo_store_def
          handle_new_user_def)
  have c: "authentic demo_env ''refund O1'' (Some (''sha256=whsec'' @ ''refund O1''))
             demo_refund"
    by (rule authentic_demo) (simp add: demo_parse_def)
  have d: "event_type demo_refund = ''refund.processed''
           \<and> (\<forall>t \<in> set (transactions demo_store).
                 groovesell_order_id t \<noteq> order_id demo_refund)"
    by (simp add: demo_refund_def demo_store_def)
  have "deliver no_faults demo_store ''purchase O3'' = ((Success_true, 200), demo_store)"
    unfolding deliver_def
    using unresolved_event_acknowledged [OF a, of demo_store no_faults] b by simp
  moreover
  have "deliver no_faults demo_store ''refund O1'' = ((Success_true, 200), demo_store)"
    unfolding deliver_def
    using unresolved_event_acknowledged [OF c, of demo_store no_faults] d by simp
  ultimately show ?thesis
    using a c
    by (simp add: demo_purchase_stranger_def demo_purchase_def demo_refund_def demo_store_def
          handle_new_user_def)
qed


section \<open>Purchases\<close>

text \<open>
  Against claim C8. The purchase \<open>O2\<close> names no subscription type, and the account's
  \<open>subscription_type\<close> is set to monthly, not to the (absent) payload value. And when
  the purchase \<open>O1\<close> is delivered to the store that already holds the transaction
  \<open>O1\<close>, the processing records no transaction.
\<close>

theorem purchase_effect_counterexample:
  "wh_subscription_type demo_purchase_plain = None
   \<and> map subscription_type (user_profiles (snd (deliver no_faults demo_store ''purchase O2'')))
       = [Some Monthly, None]
   \<and> transactions (snd (deliver no_faults demo_store_purchased ''purchase O1''))
       = transactions demo_store_purchased"
  unfolding demo_store_purchased_eq
  by (simp add: demo_defs run_defs)

text \<open>
  Claim C8, amended. For every authentic \<^verbatim>\<open>purchase.completed\<close> or
  \<^verbatim>\<open>subscription.created\<close> event whose customer email selects exactly one profile
  \<open>p\<close>, and when the store calls run: the rows with the id of \<open>p\<close> get
  \<open>total_credits + N\<close>, status active, the payload's subscription type or monthly when
  the payload has none, and the order id as customer id; every other row is unchanged;
  and one transaction of type purchase with \<open>credits_added = N\<close> is appended, unless the
  log already holds a transaction with that order id, in which case the log is
  unchanged. \<open>N\<close> is \<open>getCreditsForPurchase\<close>. The one call that can fail of itself is
  \<open>add_credits\<close>: when \<open>N\<close> or a new total is no \<^verbatim>\<open>INTEGER\<close> it raises, and the handler
  returns with the store as it was.
\<close>

theorem purchase_completed_effect:
  assumes "authentic e body signature d"
    and "event_type d = ''purchase.completed'' \<or> event_type d = ''subscription.created''"
    and "single (\<lambda>q. email q = customer_email d) (user_profiles s) = Inr p"
  shows "POST e no_faults s body signature =
           ((Success_true, 200),
            if int4 (getCreditsForPurchase e)
               \<and> totals_fit (profile_id p) (getCreditsForPurchase e) s
            then
            s\<lparr>user_profiles :=
                map (\<lambda>q. if profile_id q = profile_id p
                         then q\<lparr>total_credits := total_credits q + getCreditsForPurchase e,
                                subscription_status := Active,
                                subscription_type :=
                                  Some (case wh_subscription_type d of
                                          None \<Rightarrow> Monthly | Some ty \<Rightarrow> ty),
                                groovesell_customer_id := Some (order_id d)\<rparr>
                         else q) (user_profiles s),
              transactions :=
                (if list_ex (\<lambda>t. groovesell_order_id t = order_id d) (transactions s)
                 then transactions s
                 else transactions s @
                      [\<lparr>user_id = profile_id p, groovesell_order_id = order_id d,
                        transaction_type = Purchase,
                        credits_added = getCreditsForPurchase e,
                        amount = wh_amount d, currency = wh_currency d,
                        tx_subscription_type =
                          Some (case wh_subscription_type d of
                                  None \<Rightarrow> Monthly | Some ty \<Rightarrow> ty),
                        status = Completed\<rparr>])\<rparr>
            else s)"
proof (cases "int4 (getCreditsForPurchase e)
              \<and> totals_fit (profile_id p) (getCreditsForPurchase e) s")
  case True
  with assms show ?thesis
    by (simp add: POST_authentic dispatch_purchase handlePurchaseCompleted_no_faults
          purchase_row_def subscription_type_or_monthly_def)
next
  case False
  have "POST e no_faults s body signature = ((Success_true, 200), s)"
    using assms(1,2) handlePurchaseCompleted_raises [OF assms(3) False]
    by (simp add: POST_authentic dispatch_purchase)
  then show ?thesis
    unfolding if_not_P [OF False] .
qed

theorem purchase_completed_effect_witness:
  "authentic demo_env ''purchase O1'' (Some (''sha256=whsec'' @ ''purchase O1'')) demo_purchase
   \<and> event_type demo_purchase = ''purchase.completed''
   \<and> single (\<lambda>q. email q = customer_email demo_purchase) (user_profiles demo_store)
       = Inr (handle_new_user ''u1'' ''ann@example.org'')
   \<and> deliver no_faults demo_store ''purchase O1'' =
       ((Success_true, 200),
        \<lparr>user_profiles =
           [\<lparr>profile_id = ''u1'', email = ''ann@example.org'', subscription_status = Active,
             subscription_type = Some Yearly, total_credits = 8, used_credits = 0,
             groovesell_customer_id = Some ''O1''\<rparr>,
            handle_new_user ''u2'' ''bob@example.org''],
         transactions =
           [\<lparr>user_id = ''u1'', groovesell_order_id = ''O1'', transaction_type = Purchase,
             credits_added = 5, amount = 10, currency = ''USD'',
             tx_subscription_type = Some Yearly, status = Completed\<rparr>]\<rparr>)"
proof -
  have a: "authentic demo_env ''purchase O1'' (Some (''sha256=whsec'' @ ''purchase O1''))
             demo_purchase"
    by (rule authentic_demo) (simp add: demo_parse_def)
  have b: "event_type demo_purchase = ''purchase.completed''"
    by (simp add: demo_purchase_def)
  have "deliver no_faults demo_store ''purchase O1'' =
       ((Success_true, 200),
        \<lparr>user_profiles =
           [\<lparr>profile_id = ''u1'', email = ''ann@example.org'', subscription_status = Active,
             subscription_type = Some Yearly, total_credits = 8, used_credits = 0,
             groovesell_customer_id = Some ''O1''\<rparr>,
            handle_new_user ''u2'' ''bob@example.org''],
         transactions =
           [\<lparr>user_id = ''u1'', groovesell_order_id = ''O1'', transaction_type = Purchase,
             credits_added = 5, amount = 10, currency = ''USD'',
             tx_subscription_type = Some Yearly, status = Completed\<rparr>]\<rparr>)"
    unfolding deliver_def
      purchase_completed_effect [OF a disjI1 [OF b] single_email_demo_store]
    by (simp add: demo_env_def demo_store_def demo_purchase_def handle_new_user_def
          getCreditsForPurchase_def totals_fit_def int4_def)
  with a b single_email_demo_store show ?thesis by simp
qed

text \<open>
  Against claim C1. The purchase \<open>O1\<close> is delivered twice with the same body and
  signature to the example store. The first delivery takes the account from three to
  eight credits; the second takes it to thirteen, while the log holds the single
  transaction \<open>O1\<close>.
\<close>

theorem replayed_purchase_counterexample:
  "map total_credits (user_profiles demo_store) = [3, 3]
   \<and> map total_credits (user_profiles demo_store_purchased) = [8, 3]
   \<and> map total_credits
       (user_profiles (snd (deliver no_faults demo_store_purchased ''purchase O1''))) = [13, 3]
   \<and> map groovesell_order_id
       (transactions (snd (deliver no_faults demo_store_purchased ''purchase O1''))) = [''O1'']"
  unfolding demo_store_purchased_eq
  by (simp add: demo_defs run_defs)

text \<open>
  Claim C1, amended. For every authentic \<^verbatim>\<open>purchase.completed\<close> or
  \<^verbatim>\<open>subscription.created\<close> event whose customer email selects exactly one profile,
  and when the store calls run: after two deliveries of the same body and signature
  the log holds one transaction more than before the first (none more when the order id
  was there already), the second delivery is answered with success, and the account
  has received the credits twice, \<open>total_credits + 2 * N\<close>. The one call that can fail
  of itself is \<open>add_credits\<close>, when \<open>N\<close> or a new total is no \<^verbatim>\<open>INTEGER\<close>: if it raises
  in the first delivery the store stays as it was, and if it raises in the second only,
  the store stays as the first delivery left it.
\<close>

theorem replayed_purchase_credits_twice:
  assumes "authentic e body signature d"
    and "event_type d = ''purchase.completed'' \<or> event_type d = ''subscription.created''"
    and "single (\<lambda>q. email q = customer_email d) (user_profiles s) = Inr p"
  shows "POST e no_faults (snd (POST e no_faults s body signature)) body signature =
           ((Success_true, 200),
            if int4 (getCreditsForPurchase e)
               \<and> totals_fit (profile_id p) (getCreditsForPurchase e) s
            then
            s\<lparr>user_profiles :=
                map (\<lambda>q. if profile_id q = profile_id p
                         then q\<lparr>total_credits :=
                                  total_credits q
                                  + (if totals_fit (profile_id p)
                                          (2 * getCreditsForPurchase e) s
                                     then 2 * getCreditsForPurchase e
                                     else getCreditsForPurchase e),
                                subscription_status := Active,
                                subscription_type := Some (subscription_type_or_monthly d),
                                groovesell_customer_id := Some (order_id d)\<rparr>
                         else q) (user_profiles s),
              transactions :=
                (if list_ex (\<lambda>t. groovesell_order_id t = order_id d) (transactions s)
                 then transactions s
                 else transactions s @ [purchase_row (profile_id p) (getCreditsForPurchase e) d])\<rparr>
            else s)"
proof (cases "int4 (getCreditsForPurchase e)
              \<and> totals_fit (profile_id p) (getCreditsForPurchase e) s")
  case False
  have once: "POST e no_faults s body signature = ((Success_true, 200), s)"
    using assms(1,2) handlePurchaseCompleted_raises [OF assms(3) False]
    by (simp add: POST_authentic dispatch_purchase)
  then have "POST e no_faults (snd (POST e no_faults s body signature)) body signature
             = ((Success_true, 200), s)"
    by simp
  then show ?thesis
    unfolding if_not_P [OF False] .
next
  case True
  let ?n = "getCreditsForPurchase e"
  let ?h = "\<lambda>q. if profile_id q = profile_id p
                then q\<lparr>total_credits := total_credits q + ?n,
                       subscription_status := Active,
                       subscription_type := Some (subscription_type_or_monthly d),
                       groovesell_customer_id := Some (order_id d)\<rparr>
                else q"
  let ?ts = "if list_ex (\<lambda>t. groovesell_order_id t = order_id d) (transactions s)
             then transactions s
             else transactions s @ [purchase_row (profile_id p) ?n d]"
  let ?s1 = "s\<lparr>user_profiles := map ?h (user_profiles s), transactions := ?ts\<rparr>"
  have first: "snd (POST e no_faults s body signature) = ?s1"
    using assms True
    by (simp add: POST_authentic dispatch_purchase handlePurchaseCompleted_no_faults)
  have lookup: "single (\<lambda>q. email q = customer_email d) (user_profiles ?s1) = Inr (?h p)"
    using single_email_after_purchase [OF assms(3), of "profile_id p"] by simp
  have key: "list_ex (\<lambda>t. groovesell_order_id t = order_id d) (transactions ?s1)"
    by (simp add: purchase_row_def)
  have fit: "totals_fit (profile_id (?h p)) ?n ?s1 = totals_fit (profile_id p) (2 * ?n) s"
    using totals_fit_after_purchase [where u = "profile_id p" and m = ?n and s = s] by simp
  show ?thesis
  proof (cases "totals_fit (profile_id p) (2 * ?n) s")
    case fits: True
    have "handlePurchaseCompleted e no_faults ?s1 d =
            ?s1\<lparr>user_profiles := map ?h (user_profiles ?s1)\<rparr>"
      using handlePurchaseCompleted_no_faults [OF lookup, of e] key True fits fit
      by (simp cong: if_cong)
    then show ?thesis
      unfolding if_P [OF True] if_P [OF fits]
      using assms(1,2) first
      by (simp add: POST_authentic dispatch_purchase o_def cong: if_cong)
  next
    case raises: False
    have "handlePurchaseCompleted e no_faults ?s1 d = ?s1"
      using handlePurchaseCompleted_raises [OF lookup, of e] raises fit by simp
    then show ?thesis
      unfolding if_P [OF True] if_not_P [OF raises]
      using assms(1,2) first
      by (simp add: POST_authentic dispatch_purchase cong: if_cong)
  qed
qed

theorem replayed_purchase_credits_twice_witness:
  "authentic demo_env ''purchase O1'' (Some (''sha256=whsec'' @ ''purchase O1'')) demo_purchase
   \<and> event_type demo_purchase = ''purchase.completed''
   \<and> single (\<lambda>q. email q = customer_email demo_purchase) (user_profiles demo_store)
       = Inr (handle_new_user ''u1'' ''ann@example.org'')
   \<and> deliver no_faults (snd (deliver no_faults demo_store ''purchase O1'')) ''purchase O1'' =
       ((Success_true, 200),
        \<lparr>user_profiles =
           [\<lparr>profile_id = ''u1'', email = ''ann@example.org'', subscription_status = Active,
             subscription_type = Some Yearly, total_credits = 13, used_credits = 0,
             groovesell_customer_id = Some ''O1''\<rparr>,
            handle_new_user ''u2'' ''bob@example.org''],
         transactions =
           [\<lparr>user_id = ''u1'', groovesell_order_id = ''O1'', transaction_type = Purchase,
             credits_added = 5, amount = 10, currency = ''USD'',
             tx_subscription_type = Some Yearly, status = Completed\<rparr>]\<rparr>)"
proof -
  have a: "authentic demo_env ''purchase O1'' (Some (''sha256=whsec'' @ ''purchase O1''))
             demo_purchase"
    by (rule authentic_demo) (simp add: demo_parse_def)
  have b: "event_type demo_purchase = ''purchase.completed''"
    by (simp add: demo_purchase_def)
  have "deliver no_faults (snd (deliver no_faults demo_store ''purchase O1'')) ''purchase O1'' =
       ((Success_true, 200),
        \<lparr>user_profiles =
           [\<lparr>profile_id = ''u1'', email = ''ann@example.org'', subscription_status = Active,
             subscription_type = Some Yearly, total_credits = 13, used_credits = 0,
             groovesell_customer_id = Some ''O1''\<rparr>,
            handle_new_user ''u2'' ''bob@example.org''],
         transactions =
           [\<lparr>user_id = ''u1'', groovesell_order_id = ''O1'', transaction_type = Purchase,
             credits_added = 5, amount = 10, currency = ''USD'',
             tx_subscription_type = Some Yearly, status = Completed\<rparr>]\<rparr>)"
    unfolding deliver_def
      replayed_purchase_credits_twice [OF a disjI1 [OF b] single_email_demo_store]
    by (simp add: demo_env_def demo_store_def demo_purchase_def handle_new_user_def
          getCreditsForPurchase_def purchase_row_def subscription_type_or_monthly_def
          totals_fit_def int4_def)
  with a b single_email_demo_store show ?thesis by simp
qed


section \<open>Refunds\<close>

text \<open>
  Against claim C5. The refund of \<open>O1\<close> is delivered to the store that already holds
  the transactions \<open>O1\<close> and \<open>O1-refund\<close>: the order id matches the prior purchase,
  the event is answered with success, the account loses its remaining three credits,
  and no transaction is recorded.
\<close>

theorem replayed_refund_counterexample:
  "map groovesell_order_id (transactions demo_store_refunded) = [''O1'', ''O1-refund'']
   \<and> fst (deliver no_faults demo_store_refunded ''refund O1'') = (Success_true, 200)
   \<and> transactions (snd (deliver no_faults demo_store_refunded ''refund O1''))
       = transactions demo_store_refunded
   \<and> map total_credits (user_profiles demo_store_refunded) = [3, 3]
   \<and> map total_credits
       (user_profiles (snd (deliver no_faults demo_store_refunded ''refund O1''))) = [0, 3]"
  unfolding demo_store_refunded_eq
  by (simp add: demo_defs run_defs)

text \<open>
  Claim C5, amended. For every authentic \<^verbatim>\<open>refund.processed\<close> event whose order id
  selects the transaction \<open>t\<close> and whose \<open>user_id\<close> selects the profile \<open>p\<close>, and
  when the store calls run: the account's \<open>total_credits\<close> becomes
  \<open>total_credits p - min (credits_added t) (total_credits p)\<close>, which is not negative,
  its status becomes cancelled, every other row is unchanged, and a transaction of type
  refund with the key \<open>order_id @ ''-refund''\<close> and \<open>credits_added = - credits_added t\<close>
  is appended, unless the log already holds that key, in which case the log is
  unchanged.
\<close>

theorem refund_processed_effect:
  assumes "authentic e body signature d"
    and "event_type d = ''refund.processed''"
    and "single (\<lambda>t. groovesell_order_id t = order_id d) (transactions s) = Inr t"
    and "single (\<lambda>q. profile_id q = user_id t) (user_profiles s) = Inr p"
  shows "POST e no_faults s body signature =
           ((Success_true, 200),
            s\<lparr>user_profiles :=
                map (\<lambda>q. if profile_id q = user_id t
                         then q\<lparr>total_credits :=
                                  total_credits p - min (credits_added t) (total_credits p),
                                subscription_status := Cancelled\<rparr>
                         else q) (user_profiles s),
              transactions :=
                (if list_ex (\<lambda>x. groovesell_order_id x = order_id d @ ''-refund'')
                      (transactions s)
                 then transactions s
                 else transactions s @
                      [\<lparr>user_id = user_id t,
                        groovesell_order_id = order_id d @ ''-refund'',
                        transaction_type = Refund, credits_added = - credits_added t,
                        amount = - wh_amount d, currency = wh_currency d,
                        tx_subscription_type = None, status = Completed\<rparr>])\<rparr>)
         \<and> 0 \<le> total_credits p - min (credits_added t) (total_credits p)"
  using assms
  by (simp add: POST_authentic dispatch_refund handleRefund_no_faults refund_row_def)

theorem refund_processed_effect_witness:
  "authentic demo_env ''refund O1'' (Some (''sha256=whsec'' @ ''refund O1'')) demo_refund
   \<and> event_type demo_refund = ''refund.processed''
   \<and> map credits_added (transactions demo_store_purchased) = [5]
   \<and> deliver no_faults demo_store_purchased ''refund O1'' =
       ((Success_true, 200),
        \<lparr>user_profiles =
           [\<lparr>profile_id = ''u1'', email = ''ann@example.org'',
             subscription_status = Cancelled, subscription_type = Some Yearly,
             total_credits = 3, used_credits = 0,
             groovesell_customer_id = Some ''O1''\<rparr>,
            handle_new_user ''u2'' ''bob@example.org''],
         transactions =
           [\<lparr>user_id = ''u1'', groovesell_order_id = ''O1'', transaction_type = Purchase,
             credits_added = 5, amount = 10, currency = ''USD'',
             tx_subscription_type = Some Yearly, status = Completed\<rparr>,
            \<lparr>user_id = ''u1'', groovesell_order_id = ''O1-refund'',
             transaction_type = Refund, credits_added = - 5, amount = - 10,
             currency = ''USD'', tx_subscription_type = None, status = Completed\<rparr>]\<rparr>)"
proof -
  have a: "authentic demo_env ''refund O1'' (Some (''sha256=whsec'' @ ''refund O1''))
             demo_refund"
    by (rule authentic_demo) (simp add: demo_parse_def)
  have b: "event_type demo_refund = ''refund.processed''"
    by (simp add: demo_refund_def)
  have c: "single (\<lambda>t. groovesell_order_id t = order_id demo_refund)
             (transactions demo_store_purchased)
           = Inr \<lparr>user_id = ''u1'', groovesell_order_id = ''O1'',
                  transaction_type = Purchase, credits_added = 5, amount = 10,
                  currency = ''USD'', tx_subscription_type = Some Yearly,
                  status = Completed\<rparr>"
    unfolding demo_store_purchased_eq by (simp add: single_def demo_refund_def)
  have d: "single (\<lambda>q. profile_id q =
                      user_id \<lparr>user_id = ''u1'', groovesell_order_id = ''O1'',
                               transaction_type = Purchase, credits_added = 5, amount = 10,
                               currency = ''USD'', tx_subscription_type = Some Yearly,
                               status = Completed\<rparr>)
             (user_profiles demo_store_purchased)
           = Inr \<lparr>profile_id = ''u1'', email = ''ann@example.org'',
                  subscription_status = Active, subscription_type = Some Yearly,
                  total_credits = 8, used_credits = 0,
                  groovesell_customer_id = Some ''O1''\<rparr>"
    unfolding demo_store_purchased_eq by (simp add: single_def)
  from refund_processed_effect [OF a b c d]
  have "deliver no_faults demo_store_purchased ''refund O1'' =
       ((Success_true, 200),
        \<lparr>user_profiles =
           [\<lparr>profile_id = ''u1'', email = ''ann@example.org'',
             subscription_status = Cancelled, subscription_type = Some Yearly,
             total_credits = 3, used_credits = 0,
             groovesell_customer_id = Some ''O1''\<rparr>,
            handle_new_user ''u2'' ''bob@example.org''],
         transactions =
           [\<lparr>user_id = ''u1'', groovesell_order_id = ''O1'', transaction_type = Purchase,
             credits_added = 5, amount = 10, currency = ''USD'',
             tx_subscription_type = Some Yearly, status = Completed\<rparr>,
            \<lparr>user_id = ''u1'', groovesell_order_id = ''O1-refund'',
             transaction_type = Refund, credits_added = - 5, amount = - 10,
             currency = ''USD'', tx_subscription_type = None, status = Completed\<rparr>]\<rparr>)"
    unfolding deliver_def demo_store_purchased_eq
    by (simp add: demo_refund_def handle_new_user_def)
  moreover have "map credits_added (transactions demo_store_purchased) = [5]"
    unfolding demo_store_purchased_eq by simp
  ultimately show ?thesis using a b by simp
qed

text \<open>
  Against claim C10. The buyer's profile row is gone and the refund of \<open>O1\<close> has been
  processed once, so the log holds \<open>O1-refund\<close>. The same refund delivered again
  inserts nothing: the store is returned as it was.
\<close>

theorem refund_without_profile_counterexample:
  "map profile_id (user_profiles demo_store_orphan) = [''u2'']
   \<and> map user_id (transactions demo_store_orphan) = [''u1'']
   \<and> map groovesell_order_id
       (transactions (snd (deliver no_faults demo_store_orphan ''refund O1'')))
       = [''O1'', ''O1-refund'']
   \<and> deliver no_faults (snd (deliver no_faults demo_store_orphan ''refund O1'')) ''refund O1''
       = ((Success_true, 200), snd (deliver no_faults demo_store_orphan ''refund O1''))"
  unfolding demo_store_orphan_def demo_store_purchased_eq
  by (simp add: demo_defs run_defs)

text \<open>
  Claim C10, amended. For every authentic \<^verbatim>\<open>refund.processed\<close> event whose order id
  selects the transaction \<open>t\<close> while no profile row has the id \<open>user_id t\<close>, and when
  the store calls run: the table of profiles is unchanged, and a transaction of type
  refund with the key \<open>order_id @ ''-refund''\<close> and \<open>credits_added = - credits_added t\<close>
  is appended, unless the log already holds that key, in which case the log is
  unchanged too.
\<close>

theorem refund_without_profile:
  assumes "authentic e body signature d"
    and "event_type d = ''refund.processed''"
    and "single (\<lambda>t. groovesell_order_id t = order_id d) (transactions s) = Inr t"
    and "\<forall>q \<in> set (user_profiles s). profile_id q \<noteq> user_id t"
  shows "POST e no_faults s body signature =
           ((Success_true, 200),
            s\<lparr>transactions :=
                (if list_ex (\<lambda>x. groovesell_order_id x = order_id d @ ''-refund'')
                      (transactions s)
                 then transactions s
                 else transactions s @
                      [\<lparr>user_id = user_id t,
                        groovesell_order_id = order_id d @ ''-refund'',
                        transaction_type = Refund, credits_added = - credits_added t,
                        amount = - wh_amount d, currency = wh_currency d,
                        tx_subscription_type = None, status = Completed\<rparr>])\<rparr>)"
  using assms
  by (simp add: POST_authentic dispatch_refund handleRefund_no_profile refund_row_def)

theorem refund_without_profile_witness:
  "authentic demo_env ''refund O1'' (Some (''sha256=whsec'' @ ''refund O1'')) demo_refund
   \<and> event_type demo_refund = ''refund.processed''
   \<and> map user_id (transactions demo_store_orphan) = [''u1'']
   \<and> map profile_id (user_profiles demo_store_orphan) = [''u2'']
   \<and> deliver no_faults demo_store_orphan ''refund O1'' =
       ((Success_true, 200),
        \<lparr>user_profiles = [handle_new_user ''u2'' ''bob@example.org''],
         transactions =
           [\<lparr>user_id = ''u1'', groovesell_order_id = ''O1'', transaction_type = Purchase,
             credits_added = 5, amount = 10, currency = ''USD'',
             tx_subscription_type = Some Yearly, status = Completed\<rparr>,
            \<lparr>user_id = ''u1'', groovesell_order_id = ''O1-refund'',
             transaction_type = Refund, credits_added = - 5, amount = - 10,
             currency = ''USD'', tx_subscription_type = None, status = Completed\<rparr>]\<rparr>)"
proof -
  have a: "authentic demo_env ''refund O1'' (Some (''sha256=whsec'' @ ''refund O1''))
             demo_refund"
    by (rule authentic_demo) (simp add: demo_parse_def)
  have b: "event_type demo_refund = ''refund.processed''"
    by (simp add: demo_refund_def)
  have c: "single (\<lambda>t. groovesell_order_id t = order_id demo_refund)
             (transactions demo_store_orphan)
           = Inr \<lparr>user_id = ''u1'', groovesell_order_id = ''O1'',
                  transaction_type = Purchase, credits_added = 5, amount = 10,
                  currency = ''USD'', tx_subscription_type = Some Yearly,
                  status = Completed\<rparr>"
    unfolding demo_store_orphan_eq by (simp add: single_def demo_refund_def)
  have d: "\<forall>q \<in> set (user_profiles demo_store_orphan).
             profile_id q \<noteq>
             user_id \<lparr>user_id = ''u1'', groovesell_order_id = ''O1'',
                      transaction_type = Purchase, credits_added = 5, amount = 10,
                      currency = ''USD'', tx_subscription_type = Some Yearly,
                      status = Completed\<rparr>"
    unfolding demo_store_orphan_eq by (simp add: handle_new_user_def)
  from refund_without_profile [OF a b c d]
  have "deliver no_faults demo_store_orphan ''refund O1'' =
       ((Success_true, 200),
        \<lparr>user_profiles = [handle_new_user ''u2'' ''bob@example.org''],
         transactions =
           [\<lparr>user_id = ''u1'', groovesell_order_id = ''O1'', transaction_type = Purchase,
             credits_added = 5, amount = 10, currency = ''USD'',
             tx_subscription_type = Some Yearly, status = Completed\<rparr>,
            \<lparr>user_id = ''u1'', groovesell_order_id = ''O1-refund'',
             transaction_type = Refund, credits_added = - 5, amount = - 10,
             currency = ''USD'', tx_subscription_type = None, status = Completed\<rparr>]\<rparr>)"
    unfolding deliver_def demo_store_orphan_eq
    by (simp add: demo_refund_def)
  moreover have "map user_id (transactions demo_store_orphan) = [''u1'']"
    unfolding demo_store_orphan_eq by simp
  moreover have "map profile_id (user_profiles demo_store_orphan) = [''u2'']"
    unfolding demo_store_orphan_eq by (simp add: handle_new_user_def)
  ultimately show ?thesis using a b by simp
qed

end
